theory Spec2Isabelle
  imports Main
begin

section \<open>Values of the host language\<close>

text \<open>
  A JavaScript number is modelled as an integer or \<open>NaN\<close>: the numbers the fetchers
  compute with are millisecond instants, counts and the results of \<open>parseInt\<close>.
  Fractions and infinities are not represented.
\<close>

datatype js_number = NaN | Num int

text \<open>\<open>a - b\<close> on numbers: \<open>NaN\<close> is absorbing.\<close>

fun js_minus :: "js_number \<Rightarrow> js_number \<Rightarrow> js_number" where
  "js_minus (Num a) (Num b) = Num (a - b)"
| "js_minus _ _ = NaN"

text \<open>\<open>a * k\<close> for an integer constant \<open>k\<close>.\<close>

fun js_times :: "js_number \<Rightarrow> int \<Rightarrow> js_number" where
  "js_times (Num a) k = Num (a * k)"
| "js_times NaN k = NaN"

text \<open>\<open>a >= b\<close>: every comparison with \<open>NaN\<close> is false.\<close>

fun js_ge :: "js_number \<Rightarrow> js_number \<Rightarrow> bool" where
  "js_ge (Num a) (Num b) = (b \<le> a)"
| "js_ge _ _ = False"


text \<open>\<open>v > 0\<close>.\<close>

fun js_positive :: "js_number \<Rightarrow> bool" where
  "js_positive (Num a) = (0 < a)"
| "js_positive NaN = False"

text \<open>
  Truthiness of an optional string: \<open>undefined\<close> and the empty string are falsy, every
  other string is truthy.
\<close>

fun truthy :: "string option \<Rightarrow> bool" where
  "truthy None = False"
| "truthy (Some s) = (s \<noteq> [])"

text \<open>
  A \<open>Date\<close> object holds a time value in milliseconds since the epoch, or is invalid
  (\<open>None\<close>). \<open>new Date(v)\<close> of a number is invalid for \<open>NaN\<close> and for an instant beyond
  8.64e15 ms on either side of the epoch. \<open>new Date(s)\<close> of a string is the platform's
  date parser; it is a parameter \<open>parse\<close> of the functions that use it, \<open>None\<close> where
  the string does not parse.
\<close>

type_synonym date = "int option"

fun Date_of_number :: "js_number \<Rightarrow> date" where
  "Date_of_number NaN = None"
| "Date_of_number (Num v) = (if \<bar>v\<bar> \<le> 8640000000000000 then Some v else None)"

text \<open>\<open>getTime()\<close> never throws: it is \<open>NaN\<close> on an invalid date.\<close>

fun getTime :: "date \<Rightarrow> js_number" where
  "getTime None = NaN"
| "getTime (Some v) = Num v"

section \<open>Data model (types.ts)\<close>

text \<open>
  A metadata value is a string or JSON \<open>null\<close>; the source casts what it reads from the
  custom metadata to \<open>string | undefined\<close>. A feedback-stat value is a number or
  something that is not a number (\<open>typeof v === 'number'\<close> tells them apart).
\<close>

datatype jvalue = JNull | JStr string

datatype stat_value = StatNum js_number | StatOther

text \<open>
  \<open>RawRun\<close>. Messages are opaque to the fetchers and are a type parameter. An object
  with string keys is an association list. \<open>extra?: {metadata?: ...}\<close> and
  \<open>outputs?: {messages?: ...}\<close> are optional objects with one optional field each.
  Token counts and costs are only copied by the fetchers.
\<close>

record 'm RawRun =
  run_id :: string
  run_status :: "string option"
  run_start_time :: "string option"
  run_end_time :: "string option"
  run_extra :: "(string \<times> jvalue) list option option"
  run_outputs :: "'m list option option"
  run_messages :: "'m list option"
  run_prompt_tokens :: "int option"
  run_completion_tokens :: "int option"
  run_total_tokens :: "int option"
  run_prompt_cost :: "int option"
  run_completion_cost :: "int option"
  run_total_cost :: "int option"
  run_first_token_time :: "string option"
  run_feedback_stats :: "(string \<times> stat_value) list option"

record TokenUsage =
  prompt_tokens :: "int option"
  completion_tokens :: "int option"
  total_tokens :: "int option"

record Costs =
  prompt_cost :: "int option"
  completion_cost :: "int option"
  total_cost :: "int option"

text \<open>\<open>RunMetadata\<close>; \<open>None\<close> stands for \<open>null\<close>.\<close>

record RunMetadata =
  status :: "string option"
  start_time :: "string option"
  end_time :: "string option"
  duration_ms :: "js_number option"
  custom_metadata :: "(string \<times> jvalue) list"
  token_usage :: TokenUsage
  costs :: Costs
  first_token_time :: "string option"
  feedback_stats :: "(string \<times> stat_value) list"

section \<open>Metadata extractor (fetchers.ts, extractRunMetadata)\<close>

text \<open>
  \<open>extra = run.extra || {}\<close>, \<open>customMetadata = extra.metadata || {}\<close>: an object is
  always truthy, so the default is taken exactly when the field is absent.
\<close>

definition customMetadata_of :: "'m RawRun \<Rightarrow> (string \<times> jvalue) list" where
  "customMetadata_of run =
     (case run_extra run of
        None \<Rightarrow> []
      | Some extra \<Rightarrow> (case extra of None \<Rightarrow> [] | Some md \<Rightarrow> md))"

text \<open>
  The duration. The \<open>try\<close> block holds \<open>new Date(..).getTime()\<close> twice and a
  subtraction; none of the three throws, so the \<open>catch\<close> branch is never taken and the
  assignment \<open>durationMs = end - start\<close> always runs once the guard
  \<open>run.start_time && run.end_time\<close> has passed.
\<close>

definition durationMs_of :: "(string \<Rightarrow> date) \<Rightarrow> 'm RawRun \<Rightarrow> js_number option" where
  "durationMs_of parse run =
     (if truthy (run_start_time run) \<and> truthy (run_end_time run)
      then (case (run_start_time run, run_end_time run) of
              (Some s, Some e) \<Rightarrow>
                (let start = getTime (parse s); end_t = getTime (parse e)
                 in Some (js_minus end_t start))
            | _ \<Rightarrow> None)
      else None)"

definition extractRunMetadata :: "(string \<Rightarrow> date) \<Rightarrow> 'm RawRun \<Rightarrow> RunMetadata" where
  "extractRunMetadata parse run =
     \<lparr> status = run_status run,
       start_time = run_start_time run,
       end_time = run_end_time run,
       duration_ms = durationMs_of parse run,
       custom_metadata = customMetadata_of run,
       token_usage = \<lparr> prompt_tokens = run_prompt_tokens run,
                       completion_tokens = run_completion_tokens run,
                       total_tokens = run_total_tokens run \<rparr>,
       costs = \<lparr> prompt_cost = run_prompt_cost run,
                 completion_cost = run_completion_cost run,
                 total_cost = run_total_cost run \<rparr>,
       first_token_time = run_first_token_time run,
       feedback_stats = (case run_feedback_stats run of None \<Rightarrow> [] | Some st \<Rightarrow> st) \<rparr>"

text \<open>
  \<open>hasFeedback\<close>: some value of the feedback stats is a number greater than zero.
  \<open>metadata.feedback_stats\<close> is an object, hence truthy, and the early
  \<open>return false\<close> is never taken.
\<close>

fun stat_positive :: "stat_value \<Rightarrow> bool" where
  "stat_positive (StatNum v) = js_positive v"
| "stat_positive StatOther = False"

definition hasFeedback :: "RunMetadata \<Rightarrow> bool" where
  "hasFeedback metadata = list_ex (\<lambda>kv. stat_positive (snd kv)) (feedback_stats metadata)"

section \<open>Errors, requests and the remote service\<close>

text \<open>
  Every way a call can throw or reject is a value: \<open>ConfigError\<close> (no credential),
  \<open>ApiError status body\<close> (a response that is not ok), \<open>FetchRejected\<close> (\<open>fetch\<close> itself
  rejects: no response at all), \<open>JsonError\<close> (\<open>response.json()\<close> rejects),
  \<open>RangeError\<close> (\<open>toISOString\<close> of an invalid date), \<open>TypeError\<close> (\<open>pLimit\<close> refuses its
  argument) and \<open>CallbackError\<close> (what a progress callback throws).
\<close>

datatype js_error =
    ConfigError | ApiError nat string | FetchRejected | JsonError | RangeError
  | TypeError | CallbackError

text \<open>
  The body of \<open>POST /runs/query\<close>. \<open>start_time\<close> is the ISO string that
  \<open>toISOString\<close> returns; it is represented by the instant it denotes.
\<close>

record QueryBody =
  body_is_root :: bool
  body_filter :: "string option"
  body_limit :: "js_number option"
  body_session :: "string list option"
  body_start_time :: "int option"

datatype request =
    GetRun string
  | PostRunsQuery QueryBody
  | GetThreadPreview string string
  | GetFeedback string

text \<open>
  What is observable of a call besides its result: the requests it issues, the warnings
  it prints with \<open>console.error\<close>, and the invocations of the progress callback.
\<close>

datatype event =
    Request request
  | FeedbackWarning string nat
  | ItemWarning string js_error
  | Progress nat nat

type_synonym 'a io = "event list \<times> (js_error + 'a)"

text \<open>
  What the service answers to one request: nothing (\<open>fetch\<close> rejects), a status that is
  not ok with its text, an ok response with a JSON payload of the declared type, or an ok
  response whose body is not JSON.
\<close>

datatype 'a reply = NoResponse | NotOk nat string | OkJson 'a | OkNotJson

text \<open>\<open>GET /feedback\<close> answers an array or an object that may have a \<open>feedback\<close> key.\<close>

datatype 'f feedback_payload = FeedbackArray "'f list" | FeedbackObject "'f list option"

text \<open>
  The environment of the fetchers: the two places \<open>getApiKey\<close> reads, and the answer of
  the service to each request. \<open>runs_query\<close> answers \<open>{runs: ...}\<close>, whose \<open>runs\<close> may
  be missing (\<open>data.runs || []\<close>).
\<close>

record ('m, 'f) remote =
  env_LANGSMITH_API_KEY :: "string option"
  config_api_key :: "string option"
  run_by_id :: "string \<Rightarrow> 'm RawRun reply"
  runs_query :: "QueryBody \<Rightarrow> 'm RawRun list option reply"
  thread_preview :: "string \<Rightarrow> string \<Rightarrow> string reply"
  feedback_by_run :: "string \<Rightarrow> 'f feedback_payload reply"

definition getApiKey :: "('m, 'f) remote \<Rightarrow> js_error + string" where
  "getApiKey env =
     (case env_LANGSMITH_API_KEY env of
        Some k \<Rightarrow> if k \<noteq> [] then Inr k else
          (case config_api_key env of
             Some c \<Rightarrow> if c \<noteq> [] then Inr c else Inl ConfigError
           | None \<Rightarrow> Inl ConfigError)
      | None \<Rightarrow>
          (case config_api_key env of
             Some c \<Rightarrow> if c \<noteq> [] then Inr c else Inl ConfigError
           | None \<Rightarrow> Inl ConfigError))"

text \<open>
  \<open>apiRequest\<close>: the credential is read first; then the request is issued; a response
  that is not ok becomes an \<open>ApiError\<close>.
\<close>

definition apiRequest :: "('m, 'f) remote \<Rightarrow> request \<Rightarrow> 'a reply \<Rightarrow> 'a io" where
  "apiRequest env req answer =
     (case getApiKey env of
        Inl e \<Rightarrow> ([], Inl e)
      | Inr apiKey \<Rightarrow>
          ([Request req],
           (case answer of
              NoResponse \<Rightarrow> Inl FetchRejected
            | NotOk st text \<Rightarrow> Inl (ApiError st text)
            | OkJson payload \<Rightarrow> Inr payload
            | OkNotJson \<Rightarrow> Inl JsonError)))"

section \<open>Single-item fetchers\<close>

text \<open>
  \<open>fetchFeedback\<close> calls \<open>fetch\<close> directly. Only a response that is not ok is turned
  into a warning and an empty list; a rejected \<open>fetch\<close> and an undecodable body are not
  caught.
\<close>

definition fetchFeedback :: "('m, 'f) remote \<Rightarrow> string \<Rightarrow> 'f list io" where
  "fetchFeedback env runId =
     (case getApiKey env of
        Inl e \<Rightarrow> ([], Inl e)
      | Inr apiKey \<Rightarrow>
          (case feedback_by_run env runId of
             NoResponse \<Rightarrow> ([Request (GetFeedback runId)], Inl FetchRejected)
           | NotOk st text \<Rightarrow>
               ([Request (GetFeedback runId), FeedbackWarning runId st], Inr [])
           | OkNotJson \<Rightarrow> ([Request (GetFeedback runId)], Inl JsonError)
           | OkJson data \<Rightarrow>
               ([Request (GetFeedback runId)],
                (case data of
                   FeedbackArray fs \<Rightarrow> Inr fs
                 | FeedbackObject (Some fs) \<Rightarrow> Inr fs
                 | FeedbackObject None \<Rightarrow> Inr []))))"

record ('m, 'f) TraceData =
  trace_id :: string
  trace_messages :: "'m list"
  metadata :: "RunMetadata option"
  feedback :: "'f list option"

record FetchTraceOptions =
  includeMetadata :: "bool option"
  includeFeedback :: "bool option"

text \<open>\<open>options?.includeMetadata ?? false\<close>.\<close>

definition wants :: "FetchTraceOptions option \<Rightarrow> (FetchTraceOptions \<Rightarrow> bool option) \<Rightarrow> bool" where
  "wants options field =
     (case options of
        None \<Rightarrow> False
      | Some opts \<Rightarrow> (case field opts of None \<Rightarrow> False | Some b \<Rightarrow> b))"

text \<open>\<open>run.messages || run.outputs?.messages || []\<close>; an array is always truthy.\<close>

definition messages_of :: "'m RawRun \<Rightarrow> 'm list" where
  "messages_of run =
     (case run_messages run of
        Some ms \<Rightarrow> ms
      | None \<Rightarrow>
          (case run_outputs run of
             Some (Some ms) \<Rightarrow> ms
           | _ \<Rightarrow> []))"

definition fetchTrace ::
  "('m, 'f) remote \<Rightarrow> (string \<Rightarrow> date) \<Rightarrow> string \<Rightarrow> FetchTraceOptions option \<Rightarrow>
     ('m, 'f) TraceData io" where
  "fetchTrace env parse traceId options =
     (let wantMetadata = wants options includeMetadata;
          wantFeedback = wants options includeFeedback
      in case apiRequest env (GetRun traceId) (run_by_id env traceId) of
           (evs, Inl e) \<Rightarrow> (evs, Inl e)
         | (evs, Inr run) \<Rightarrow>
             (let result = \<lparr> trace_id = traceId, trace_messages = messages_of run,
                             metadata = None, feedback = None \<rparr>
              in if wantMetadata \<or> wantFeedback
                 then (let md = extractRunMetadata parse run
                       in if wantFeedback \<and> hasFeedback md
                          then (case fetchFeedback env traceId of
                                  (evs', Inl e) \<Rightarrow> (evs @ evs', Inl e)
                                | (evs', Inr fs) \<Rightarrow>
                                    (evs @ evs',
                                     Inr (result\<lparr> metadata := Some md, feedback := Some fs \<rparr>)))
                          else (evs, Inr (result\<lparr> metadata := Some md, feedback := Some [] \<rparr>)))
                 else (evs, Inr result)))"

section \<open>Message-stream parser (fetchers.ts, fetchThread)\<close>

text \<open>
  A string is a list of code units; code units above 0xFF are not represented.
  \<open>split_blank cur s\<close> is \<open>s.split('\n\n')\<close> with \<open>cur\<close> the segment read so far: the
  separator is matched from the left, and a match consumes both newlines.
\<close>

definition nl :: char where
  "nl = CHR 0x0A"

fun split_blank :: "string \<Rightarrow> string \<Rightarrow> string list" where
  "split_blank cur [] = [cur]"
| "split_blank cur [c] = [cur @ [c]]"
| "split_blank cur (c # d # cs) =
     (if c = nl \<and> d = nl then cur # split_blank [] cs
      else split_blank (cur @ [c]) (d # cs))"

text \<open>\<open>trim()\<close> removes white space and line terminators from both ends.\<close>

definition is_space :: "char \<Rightarrow> bool" where
  "is_space c \<longleftrightarrow> c \<in> set [CHR 0x09, CHR 0x0A, CHR 0x0B, CHR 0x0C, CHR 0x0D, CHR 0x20, CHR 0xA0]"

definition trim :: "string \<Rightarrow> string" where
  "trim s = rev (dropWhile is_space (rev (dropWhile is_space s)))"

text \<open>
  The loop over the segments, \<open>messages\<close> being the array pushed to. \<open>JSON.parse\<close> is
  the parameter \<open>decode\<close>; \<open>None\<close> where it throws.
\<close>

fun parse_segments :: "(string \<Rightarrow> 'm option) \<Rightarrow> string list \<Rightarrow> 'm list \<Rightarrow> 'm list" where
  "parse_segments decode [] messages = messages"
| "parse_segments decode (line # rest) messages =
     (let trimmed = trim line
      in if trimmed \<noteq> []
         then (case decode trimmed of
                 Some m \<Rightarrow> parse_segments decode rest (messages @ [m])
               | None \<Rightarrow> parse_segments decode rest messages)
         else parse_segments decode rest messages)"

definition parse_messages :: "(string \<Rightarrow> 'm option) \<Rightarrow> string \<Rightarrow> 'm list" where
  "parse_messages decode messagesText = parse_segments decode (split_blank [] messagesText) []"

record 'm ThreadData =
  thread_id :: string
  thread_messages :: "'m list"

definition fetchThread ::
  "('m, 'f) remote \<Rightarrow> (string \<Rightarrow> 'm option) \<Rightarrow> string \<Rightarrow> string \<Rightarrow> 'm ThreadData io" where
  "fetchThread env decode threadId projectUuid =
     (case apiRequest env (GetThreadPreview threadId projectUuid)
             (thread_preview env threadId projectUuid) of
        (evs, Inl e) \<Rightarrow> (evs, Inl e)
      | (evs, Inr messagesText) \<Rightarrow>
          (evs, Inr \<lparr> thread_id = threadId,
                      thread_messages = parse_messages decode messagesText \<rparr>))"

section \<open>Query builder (fetchers.ts, fetchTraces and fetchThreads)\<close>

text \<open>\<open>toISOString()\<close> throws a \<open>RangeError\<close> on an invalid date.\<close>

fun toISOString :: "date \<Rightarrow> js_error + int" where
  "toISOString None = Inl RangeError"
| "toISOString (Some v) = Inr v"

text \<open>\<open>since.replace('Z', '+00:00')\<close> replaces the first \<open>Z\<close> only.\<close>

fun replace_Z :: "string \<Rightarrow> string" where
  "replace_Z [] = []"
| "replace_Z (c # cs) = (if c = CHR ''Z'' then ''+00:00'' @ cs else c # replace_Z cs)"

text \<open>
  The time filter, the same statement in both bulk fetchers: \<open>lastNMinutes != null\<close>
  is tested first and \<open>since\<close> only in its \<open>else\<close> branch. \<open>now\<close> is \<open>Date.now()\<close>.
  The result is the \<open>start_time\<close> to put in the body, if any.
\<close>

definition start_time_filter ::
  "(string \<Rightarrow> date) \<Rightarrow> int \<Rightarrow> js_number option \<Rightarrow> string option \<Rightarrow> js_error + int option" where
  "start_time_filter parse now lastNMinutes since =
     (case lastNMinutes of
        Some n \<Rightarrow>
          (case toISOString (Date_of_number (js_minus (Num now) (js_times (js_times n 60) 1000))) of
             Inl e \<Rightarrow> Inl e
           | Inr t \<Rightarrow> Inr (Some t))
      | None \<Rightarrow>
          (if truthy since
           then (case since of
                   Some s \<Rightarrow>
                     (case toISOString (parse (replace_Z s)) of
                        Inl e \<Rightarrow> Inl e
                      | Inr t \<Rightarrow> Inr (Some t))
                 | None \<Rightarrow> Inr None)
           else Inr None))"

text \<open>
  The options of the bulk fetchers. A progress callback is given by when it throws:
  \<open>onProgress = Some f\<close> is a callback whose invocation with \<open>(completed, total)\<close>
  throws exactly when \<open>f completed total\<close> holds; \<open>None\<close> is no callback. (The count
  passed to the callback grows with every invocation, so this covers a callback whose
  behaviour depends on how often it has been called.)
\<close>

record FetchTracesOptions =
  opt_limit :: "js_number option"
  opt_projectUuid :: "string option"
  opt_lastNMinutes :: "js_number option"
  opt_since :: "string option"
  opt_maxConcurrent :: "js_number option"
  opt_includeMetadata :: "bool option"
  opt_includeFeedback :: "bool option"
  opt_onProgress :: "(nat \<Rightarrow> nat \<Rightarrow> bool) option"

record FetchThreadsOptions =
  topt_projectUuid :: string
  topt_limit :: "js_number option"
  topt_lastNMinutes :: "js_number option"
  topt_since :: "string option"
  topt_maxConcurrent :: "js_number option"
  topt_onProgress :: "(nat \<Rightarrow> nat \<Rightarrow> bool) option"

definition root_filter :: string where
  "root_filter = ''and(eq(is_root, true), neq(status, '' @ [CHR 0x22] @ ''pending'' @ [CHR 0x22] @ ''))''"

definition traces_query_body ::
  "(string \<Rightarrow> date) \<Rightarrow> int \<Rightarrow> FetchTracesOptions \<Rightarrow> js_error + QueryBody" where
  "traces_query_body parse now opts =
     (case start_time_filter parse now (opt_lastNMinutes opts) (opt_since opts) of
        Inl e \<Rightarrow> Inl e
      | Inr st \<Rightarrow>
          Inr \<lparr> body_is_root = True,
                body_filter = Some root_filter,
                body_limit = Some (case opt_limit opts of None \<Rightarrow> Num 1 | Some l \<Rightarrow> l),
                body_session = (if truthy (opt_projectUuid opts)
                                then map_option (\<lambda>u. [u]) (opt_projectUuid opts) else None),
                body_start_time = st \<rparr>)"

definition threads_query_body ::
  "(string \<Rightarrow> date) \<Rightarrow> int \<Rightarrow> FetchThreadsOptions \<Rightarrow> js_error + QueryBody" where
  "threads_query_body parse now opts =
     (case start_time_filter parse now (topt_lastNMinutes opts) (topt_since opts) of
        Inl e \<Rightarrow> Inl e
      | Inr st \<Rightarrow>
          Inr \<lparr> body_is_root = True,
                body_filter = None,
                body_limit = None,
                body_session = Some [topt_projectUuid opts],
                body_start_time = st \<rparr>)"

section \<open>Bulk orchestrator\<close>

text \<open>
  \<open>pLimit(maxConcurrent)\<close> is a call into the library \<open>p-limit\<close>, which is not part of
  the repository. What the fetchers depend on is its argument check: it throws a
  \<open>TypeError\<close> unless the concurrency is an integer from 1 up (or infinity, which the
  numbers here do not represent). The call stands outside
  every \<open>try\<close> block, so the error is that of the bulk fetch. \<open>maxConcurrent\<close> defaults
  to 5.
\<close>

fun pLimit_accepts :: "js_number \<Rightarrow> bool" where
  "pLimit_accepts (Num k) = (1 \<le> k)"
| "pLimit_accepts NaN = False"

definition maxConcurrent_of :: "js_number option \<Rightarrow> js_number" where
  "maxConcurrent_of maxConcurrent = (case maxConcurrent of None \<Rightarrow> Num 5 | Some k \<Rightarrow> k)"

text \<open>
  Each work item is wrapped in an asynchronous task. A task awaits its single-item
  fetch and then runs, in one uninterrupted step, the rest of its \<open>try\<close> block or its
  \<open>catch\<close> block. After a successful fetch the \<open>try\<close> block increments \<open>completed\<close>,
  invokes the progress callback if there is one and resolves to the fetched value; a
  throw of the callback there is caught by the \<open>catch\<close> block like a failed fetch. The
  \<open>catch\<close> block logs a warning with the error, increments \<open>completed\<close>, invokes the
  callback and resolves to \<open>null\<close>; a throw of the callback there rejects the task.

  The scheduler and the network decide in which order the tasks reach that step; the
  order is the parameter \<open>order\<close>, a list of task indices. The log of a batch holds the
  warnings and the progress calls of all these steps in order; the requests of the
  items, issued when the scheduler starts them, are not part of it.

  A work item is given by its name (for the warning) and the outcome of its fetch.
  \<open>slots\<close> is the array \<open>Promise.all\<close> fills: \<open>None\<close> for a task that has not resolved,
  \<open>Some None\<close> for one that resolved to \<open>null\<close>. \<open>rejection\<close> is the error of the first
  task that rejected.
\<close>

definition notify :: "(nat \<Rightarrow> nat \<Rightarrow> bool) option \<Rightarrow> nat \<Rightarrow> nat \<Rightarrow> event list" where
  "notify onProgress c totalItems =
     (case onProgress of None \<Rightarrow> [] | Some f \<Rightarrow> [Progress c totalItems])"

definition throws :: "(nat \<Rightarrow> nat \<Rightarrow> bool) option \<Rightarrow> nat \<Rightarrow> nat \<Rightarrow> bool" where
  "throws onProgress c totalItems =
     (case onProgress of None \<Rightarrow> False | Some f \<Rightarrow> f c totalItems)"

record 'r batch =
  completed :: nat
  batch_events :: "event list"
  slots :: "'r option option list"
  rejection :: "js_error option"

definition catch_block ::
  "(nat \<Rightarrow> nat \<Rightarrow> bool) option \<Rightarrow> nat \<Rightarrow> string \<Rightarrow> js_error \<Rightarrow> 'r batch \<Rightarrow> nat \<Rightarrow> 'r batch" where
  "catch_block onProgress totalItems name e st i =
     (let c = completed st + 1;
          st' = st\<lparr> completed := c,
                    batch_events := batch_events st @ [ItemWarning name e] @
                                      notify onProgress c totalItems \<rparr>
      in if throws onProgress c totalItems
         then st'\<lparr> rejection := (case rejection st of
                                    None \<Rightarrow> Some CallbackError
                                  | Some first \<Rightarrow> Some first) \<rparr>
         else st'\<lparr> slots := (slots st)[i := Some None] \<rparr>)"

definition settle ::
  "(nat \<Rightarrow> nat \<Rightarrow> bool) option \<Rightarrow> nat \<Rightarrow> (string \<times> (js_error + 'r)) list \<Rightarrow> 'r batch \<Rightarrow> nat \<Rightarrow>
     'r batch" where
  "settle onProgress totalItems tasks st i =
     (if i < length tasks
      then (case tasks ! i of
              (name, Inr r) \<Rightarrow>
                (let c = completed st + 1;
                     st' = st\<lparr> completed := c,
                               batch_events := batch_events st @
                                                 notify onProgress c totalItems \<rparr>
                 in if throws onProgress c totalItems
                    then catch_block onProgress totalItems name CallbackError st' i
                    else st'\<lparr> slots := (slots st)[i := Some (Some r)] \<rparr>)
            | (name, Inl e) \<Rightarrow> catch_block onProgress totalItems name e st i)
      else st)"

definition run_batch ::
  "(nat \<Rightarrow> nat \<Rightarrow> bool) option \<Rightarrow> (string \<times> (js_error + 'r)) list \<Rightarrow> nat list \<Rightarrow> 'r batch" where
  "run_batch onProgress tasks order =
     foldl (settle onProgress (length tasks) tasks)
       \<lparr> completed = 0, batch_events = [], slots = replicate (length tasks) None,
         rejection = None \<rparr> order"

text \<open>
  \<open>Promise.all\<close> rejects with the error of the first task that rejects, and resolves,
  to the values in task order, once every task has resolved; until then the caller is
  still waiting (\<open>None\<close>).
\<close>

fun Promise_all :: "'a option list \<Rightarrow> 'a list option" where
  "Promise_all [] = Some []"
| "Promise_all (None # ps) = None"
| "Promise_all (Some v # ps) = map_option ((#) v) (Promise_all ps)"

text \<open>\<open>results.filter((r) => r !== null)\<close>.\<close>

fun non_null :: "'r option list \<Rightarrow> 'r list" where
  "non_null [] = []"
| "non_null (None # rs) = non_null rs"
| "non_null (Some r # rs) = r # non_null rs"

text \<open>
  The batch of a bulk fetch, from \<open>pLimit\<close> to the filtered results. The total passed
  to the callback is the number of tasks.
\<close>

definition bulk ::
  "js_number \<Rightarrow> (nat \<Rightarrow> nat \<Rightarrow> bool) option \<Rightarrow> (string \<times> (js_error + 'r)) list \<Rightarrow> nat list \<Rightarrow>
     event list \<times> (js_error + 'r list) option" where
  "bulk maxConcurrent onProgress tasks order =
     (if \<not> pLimit_accepts maxConcurrent then ([], Some (Inl TypeError))
      else (let st = run_batch onProgress tasks order
            in (batch_events st,
                (case rejection st of
                   Some e \<Rightarrow> Some (Inl e)
                 | None \<Rightarrow> map_option (\<lambda>results. Inr (non_null results))
                             (Promise_all (slots st))))))"

text \<open>
  The progress calls of a log, as pairs (completed, total), in the order they were made.
\<close>

fun progress_calls :: "event list \<Rightarrow> (nat \<times> nat) list" where
  "progress_calls [] = []"
| "progress_calls (Progress c t # evs) = (c, t) # progress_calls evs"
| "progress_calls (ev # evs) = progress_calls evs"

subsection \<open>fetchTraces\<close>

text \<open>\<open>data.runs || []\<close>, and an option that defaults to \<open>false\<close>.\<close>

definition runs_of :: "'m RawRun list option \<Rightarrow> 'm RawRun list" where
  "runs_of data = (case data of None \<Rightarrow> [] | Some rs \<Rightarrow> rs)"

definition default_false :: "bool option \<Rightarrow> bool" where
  "default_false b = (case b of None \<Rightarrow> False | Some v \<Rightarrow> v)"

text \<open>
  The task of one run: \<open>fetchTrace\<close>, then the merge of the query's metadata when
  metadata was asked for and the trace has none.
\<close>

definition trace_task ::
  "('m, 'f) remote \<Rightarrow> (string \<Rightarrow> date) \<Rightarrow> bool \<Rightarrow> bool \<Rightarrow> 'm RawRun \<Rightarrow>
     string \<times> (js_error + ('m, 'f) TraceData)" where
  "trace_task env parse wantMetadata wantFeedback run =
     (run_id run,
      (case snd (fetchTrace env parse (run_id run)
                   (Some \<lparr> includeMetadata = Some wantMetadata,
                           includeFeedback = Some wantFeedback \<rparr>)) of
         Inl e \<Rightarrow> Inl e
       | Inr trace \<Rightarrow>
           Inr (if wantMetadata \<and> metadata trace = None
                then trace\<lparr> metadata := Some (extractRunMetadata parse run) \<rparr>
                else trace)))"

text \<open>
  The result of a bulk fetch is \<open>None\<close> while the call has not returned, which is the
  case for ever when some task never settles and none rejects. With no runs the
  fetcher returns before \<open>pLimit\<close> is called. The callback's total is \<open>runs.length\<close>, the
  number of tasks.
\<close>

definition fetchTraces ::
  "('m, 'f) remote \<Rightarrow> (string \<Rightarrow> date) \<Rightarrow> int \<Rightarrow> nat list \<Rightarrow> FetchTracesOptions \<Rightarrow>
     event list \<times> (js_error + ('m, 'f) TraceData list) option" where
  "fetchTraces env parse now order opts =
     (case traces_query_body parse now opts of
        Inl e \<Rightarrow> ([], Some (Inl e))
      | Inr body \<Rightarrow>
          (case apiRequest env (PostRunsQuery body) (runs_query env body) of
             (evs, Inl e) \<Rightarrow> (evs, Some (Inl e))
           | (evs, Inr data) \<Rightarrow>
               (let runs = runs_of data
                in if length runs = 0 then (evs, Some (Inr []))
                   else (let wantMetadata = default_false (opt_includeMetadata opts);
                             wantFeedback = default_false (opt_includeFeedback opts);
                             tasks = map (trace_task env parse wantMetadata wantFeedback) runs
                         in case bulk (maxConcurrent_of (opt_maxConcurrent opts))
                                   (opt_onProgress opts) tasks order of
                              (bevs, res) \<Rightarrow> (evs @ bevs, res)))))"

subsection \<open>fetchThreads\<close>

text \<open>
  \<open>(meta.thread_id ?? meta.session_id) as string | undefined\<close>, where
  \<open>meta = run.extra?.metadata ?? {}\<close>: the fallback is taken when \<open>thread_id\<close> is missing
  or \<open>null\<close>.
\<close>

definition threadId_of :: "'m RawRun \<Rightarrow> string option" where
  "threadId_of run =
     (let meta = customMetadata_of run
      in case map_of meta ''thread_id'' of
           Some (JStr s) \<Rightarrow> Some s
         | _ \<Rightarrow> (case map_of meta ''session_id'' of
                  Some (JStr s) \<Rightarrow> Some s
                | _ \<Rightarrow> None))"

text \<open>
  The loop that fills the \<open>Map\<close> \<open>threadIds\<close>, an insertion-ordered association of
  thread id to start time. The size test comes after the insertion, inside the
  \<open>if\<close>.
\<close>

fun scan_threadIds ::
  "js_number \<Rightarrow> 'm RawRun list \<Rightarrow> (string \<times> string option) list \<Rightarrow> (string \<times> string option) list" where
  "scan_threadIds limit [] threadIds = threadIds"
| "scan_threadIds limit (run # rest) threadIds =
     (case threadId_of run of
        None \<Rightarrow> scan_threadIds limit rest threadIds
      | Some threadId \<Rightarrow>
          (if threadId \<noteq> [] \<and> threadId \<notin> fst ` set threadIds
           then (let threadIds' = threadIds @ [(threadId, run_start_time run)]
                 in if js_ge (Num (int (length threadIds'))) limit then threadIds'
                    else scan_threadIds limit rest threadIds')
           else scan_threadIds limit rest threadIds))"

definition thread_task ::
  "('m, 'f) remote \<Rightarrow> (string \<Rightarrow> 'm option) \<Rightarrow> string \<Rightarrow> string \<Rightarrow>
     string \<times> (js_error + 'm ThreadData)" where
  "thread_task env decode projectUuid threadId =
     (threadId, snd (fetchThread env decode threadId projectUuid))"

definition fetchThreads ::
  "('m, 'f) remote \<Rightarrow> (string \<Rightarrow> date) \<Rightarrow> (string \<Rightarrow> 'm option) \<Rightarrow> int \<Rightarrow> nat list \<Rightarrow>
     FetchThreadsOptions \<Rightarrow> event list \<times> (js_error + 'm ThreadData list) option" where
  "fetchThreads env parse decode now order opts =
     (case threads_query_body parse now opts of
        Inl e \<Rightarrow> ([], Some (Inl e))
      | Inr body \<Rightarrow>
          (case apiRequest env (PostRunsQuery body) (runs_query env body) of
             (evs, Inl e) \<Rightarrow> (evs, Some (Inl e))
           | (evs, Inr data) \<Rightarrow>
               (let runs = runs_of data;
                    limit = (case topt_limit opts of None \<Rightarrow> Num 10 | Some l \<Rightarrow> l);
                    threadIds = scan_threadIds limit runs []
                in if length threadIds = 0 then (evs, Some (Inr []))
                   else (let tasks = map (thread_task env decode (topt_projectUuid opts))
                                         (map fst threadIds)
                         in case bulk (maxConcurrent_of (topt_maxConcurrent opts))
                                   (topt_onProgress opts) tasks order of
                              (bevs, res) \<Rightarrow> (evs @ bevs, res)))))"

text \<open>\<open>Array.from(threadIds.keys())\<close>: the thread ids selected from the answer of the query.\<close>

definition select_threadIds :: "FetchThreadsOptions \<Rightarrow> 'm RawRun list option \<Rightarrow> string list" where
  "select_threadIds opts data =
     map fst (scan_threadIds (case topt_limit opts of None \<Rightarrow> Num 10 | Some l \<Rightarrow> l)
                (runs_of data) [])"

section \<open>Command line (cli.ts, the actions of traces and threads)\<close>

text \<open>
  Both actions start with the same statements: \<open>lastNMinutes\<close> is \<open>parseInt\<close> of the
  option when the option is a non-empty string, and with \<open>lastNMinutes != null\<close> and a
  truthy \<open>--since\<close> the process prints an error and exits with status 1. \<open>rest\<close> is
  everything the action does after that, the project lookup and the bulk fetch
  included.
\<close>

datatype cli_exit = Exit nat string

definition time_window_guard ::
  "(string \<Rightarrow> js_number) \<Rightarrow> string option \<Rightarrow> string option \<Rightarrow> (js_number option \<Rightarrow> 'a) \<Rightarrow>
     cli_exit + 'a" where
  "time_window_guard parseInt optLastNMinutes optSince rest =
     (let lastNMinutes = (if truthy optLastNMinutes then map_option parseInt optLastNMinutes
                          else None)
      in if lastNMinutes \<noteq> None \<and> truthy optSince
         then Inl (Exit 1 ''Error: --last-n-minutes and --since are mutually exclusive'')
         else Inr (rest lastNMinutes))"

section \<open>Reference definitions\<close>

text \<open>
  What the claims speak of, written without reference to the loops of the source: the
  distinct elements of a list in order of first occurrence; the thread identifiers of
  a run list that are candidates for selection (present and truthy); the value a task
  resolves to; and the successful results of a list of outcomes, in order.
\<close>

fun first_seen :: "'a list \<Rightarrow> 'a list" where
  "first_seen [] = []"
| "first_seen (x # xs) = x # first_seen (filter (\<lambda>y. y \<noteq> x) xs)"

definition candidate_ids :: "'m RawRun list \<Rightarrow> string list" where
  "candidate_ids runs = filter (\<lambda>s. s \<noteq> []) (List.map_filter threadId_of runs)"

text \<open>
  A text has a blank line when two newlines follow each other in it; segments are
  joined by putting a blank line between them. A progress callback returns normally
  in a batch of \<open>n\<close> tasks when none of the invocations with counts 1 to \<open>n\<close> throws.
\<close>

fun has_blank :: "string \<Rightarrow> bool" where
  "has_blank (c # d # cs) = ((c = nl \<and> d = nl) \<or> has_blank (d # cs))"
| "has_blank cs = False"

fun join_blank :: "string list \<Rightarrow> string" where
  "join_blank [] = []"
| "join_blank [x] = x"
| "join_blank (x # y # ys) = x @ [nl, nl] @ join_blank (y # ys)"

definition returns_normally :: "(nat \<Rightarrow> nat \<Rightarrow> bool) option \<Rightarrow> nat \<Rightarrow> bool" where
  "returns_normally onProgress n \<longleftrightarrow> (\<forall>c\<in>{1..n}. \<not> throws onProgress c n)"

fun resolved :: "js_error + 'r \<Rightarrow> 'r option" where
  "resolved (Inr r) = Some r"
| "resolved (Inl e) = None"

fun successful :: "(js_error + 'r) list \<Rightarrow> 'r list" where
  "successful [] = []"
| "successful (Inr r # outs) = r # successful outs"
| "successful (Inl e # outs) = successful outs"

section \<open>Example inputs\<close>

text \<open>A run that has an identifier and nothing else.\<close>

definition blank_run :: "string \<Rightarrow> 'm RawRun" where
  "blank_run rid =
     \<lparr> run_id = rid, run_status = None, run_start_time = None, run_end_time = None,
       run_extra = None, run_outputs = None, run_messages = None,
       run_prompt_tokens = None, run_completion_tokens = None, run_total_tokens = None,
       run_prompt_cost = None, run_completion_cost = None, run_total_cost = None,
       run_first_token_time = None, run_feedback_stats = None \<rparr>"

text \<open>
  A date parser that knows two instants, one second apart, and rejects every other
  string; and a decoder that accepts a segment in braces and returns its text.
\<close>

definition example_parse :: "string \<Rightarrow> date" where
  "example_parse s =
     (if s = ''2025-01-01T00:00:00Z'' \<or> s = ''2025-01-01T00:00:00+00:00'' then Some 1735689600000
      else if s = ''2025-01-01T00:00:01Z'' then Some 1735689601000
      else None)"

definition example_decode :: "string \<Rightarrow> string option" where
  "example_decode s = (if s \<noteq> [] \<and> hd s = CHR ''{'' \<and> last s = CHR ''}'' then Some s else None)"

text \<open>
  A service with a credential. Run \<open>B\<close> does not exist; runs \<open>F\<close> and \<open>G\<close> have one
  positive feedback stat; the feedback lookup of \<open>G\<close> is answered with status 500 and
  every other feedback lookup gets no response. A query with a filter (a trace query)
  answers the runs \<open>A\<close>, \<open>B\<close>, \<open>C\<close>; a query without one (a thread query) answers five
  runs with the thread ids a, a, b, a, c. The preview of thread \<open>b\<close> gets no response.
\<close>

definition thread_run :: "string \<Rightarrow> string RawRun" where
  "thread_run t = (blank_run ''r'')\<lparr> run_extra := Some (Some [(''thread_id'', JStr t)]) \<rparr>"

definition stored_run :: "string \<Rightarrow> string RawRun" where
  "stored_run rid =
     (blank_run rid)
       \<lparr> run_messages := Some [rid],
         run_feedback_stats :=
           (if rid = ''F'' \<or> rid = ''G'' then Some [(''correctness'', StatNum (Num 1))]
            else None) \<rparr>"

definition example_remote :: "(string, string) remote" where
  "example_remote =
     \<lparr> env_LANGSMITH_API_KEY = Some ''key'',
       config_api_key = None,
       run_by_id = (\<lambda>rid. if rid = ''B'' then NotOk 404 ''Not found'' else OkJson (stored_run rid)),
       runs_query = (\<lambda>body.
          if body_filter body = None
          then OkJson (Some (map thread_run [''a'', ''a'', ''b'', ''a'', ''c'']))
          else OkJson (Some [blank_run ''A'', blank_run ''B'', blank_run ''C''])),
       thread_preview = (\<lambda>tid pid. if tid = ''b'' then NoResponse else OkJson (''{'' @ tid @ ''}'')),
       feedback_by_run = (\<lambda>rid. if rid = ''G'' then NotOk 500 ''unavailable'' else NoResponse) \<rparr>"

text \<open>
  Options of the two bulk fetchers with a progress callback that never throws, a
  concurrency of 2 for traces and the default one for threads, and no time filter, the
  bodies they query with, and what the example service holds for the runs and threads
  that can be fetched.
\<close>

definition quiet_callback :: "nat \<Rightarrow> nat \<Rightarrow> bool" where
  "quiet_callback c t = False"

definition example_traces_options :: FetchTracesOptions where
  "example_traces_options =
     \<lparr> opt_limit = Some (Num 3), opt_projectUuid = Some ''p'', opt_lastNMinutes = None,
       opt_since = None, opt_maxConcurrent = Some (Num 2), opt_includeMetadata = None,
       opt_includeFeedback = None, opt_onProgress = Some quiet_callback \<rparr>"

definition example_threads_options :: FetchThreadsOptions where
  "example_threads_options =
     \<lparr> topt_projectUuid = ''p'', topt_limit = None, topt_lastNMinutes = None,
       topt_since = None, topt_maxConcurrent = None, topt_onProgress = Some quiet_callback \<rparr>"

definition example_traces_body :: QueryBody where
  "example_traces_body =
     \<lparr> body_is_root = True, body_filter = Some root_filter, body_limit = Some (Num 3),
       body_session = Some [''p''], body_start_time = None \<rparr>"

definition example_threads_body :: QueryBody where
  "example_threads_body =
     \<lparr> body_is_root = True, body_filter = None, body_limit = None,
       body_session = Some [''p''], body_start_time = None \<rparr>"

definition example_trace :: "string \<Rightarrow> (string, string) TraceData" where
  "example_trace rid =
     \<lparr> trace_id = rid, trace_messages = [rid], metadata = None, feedback = None \<rparr>"

definition example_thread :: "string \<Rightarrow> string ThreadData" where
  "example_thread tid = \<lparr> thread_id = tid, thread_messages = [''{'' @ tid @ ''}''] \<rparr>"


definition both_filters_options :: FetchTracesOptions where
  "both_filters_options =
     example_traces_options
       \<lparr> opt_lastNMinutes := Some (Num 30), opt_since := Some ''2025-01-01T00:00:00Z'',
         opt_onProgress := None \<rparr>"

definition example_parseInt :: "string \<Rightarrow> js_number" where
  "example_parseInt s = (if s = ''30'' then Num 30 else NaN)"

text \<open>
  Trace options with a concurrency of 0, and trace options whose progress callback
  throws at its first invocation and at no other.
\<close>

definition refused_options :: FetchTracesOptions where
  "refused_options = example_traces_options\<lparr> opt_maxConcurrent := Some (Num 0) \<rparr>"

definition throws_first :: "nat \<Rightarrow> nat \<Rightarrow> bool" where
  "throws_first c t \<longleftrightarrow> c = 1"

definition throwing_options :: FetchTracesOptions where
  "throwing_options = example_traces_options\<lparr> opt_onProgress := Some throws_first \<rparr>"

text \<open>
  A message blob with padded segments, an empty segment, a segment that is not a
  message and a segment with a single newline inside: the segments are
  \<open>" {human} "\<close>, \<open>""\<close>, \<open>"not json"\<close> and a tab followed by \<open>"{a\nb}\n"\<close>.
\<close>

definition example_blob :: string where
  "example_blob =
     '' {human} '' @ [nl, nl, nl, nl] @ ''not json'' @ [nl, nl] @
     [CHR 0x09] @ ''{a'' @ [nl] @ ''b}'' @ [nl]"


section \<open>Metadata extractor: the duration\<close>

lemma duration_ms_extract:
  "duration_ms (extractRunMetadata parse run) = durationMs_of parse run"
  by (simp add: extractRunMetadata_def)

text \<open>Both timestamps present and parsed: the duration is end minus start.\<close>

lemma duration_ms_parsed:
  "run_start_time run = Some s \<Longrightarrow> run_end_time run = Some e \<Longrightarrow> s \<noteq> [] \<Longrightarrow> e \<noteq> [] \<Longrightarrow>
   parse s = Some a \<Longrightarrow> parse e = Some b \<Longrightarrow>
   duration_ms (extractRunMetadata parse run) = Some (Num (b - a))"
  by (simp add: duration_ms_extract durationMs_of_def)

lemma duration_ms_example:
  "duration_ms (extractRunMetadata example_parse
      ((blank_run ''r1'' :: nat RawRun)\<lparr> run_start_time := Some ''2025-01-01T00:00:00Z'',
                                          run_end_time := Some ''2025-01-01T00:00:01Z'' \<rparr>))
   = Some (Num 1000)"
  by (simp add: duration_ms_extract durationMs_of_def blank_run_def example_parse_def)

text \<open>A timestamp missing or empty: the duration is \<open>null\<close>.\<close>

lemma duration_ms_missing:
  "\<not> truthy (run_start_time run) \<or> \<not> truthy (run_end_time run) \<Longrightarrow>
   duration_ms (extractRunMetadata parse run) = None"
  by (auto simp add: duration_ms_extract durationMs_of_def)

text \<open>
  C5. Both timestamps present, one of them not parseable: the claim says the duration is
  \<open>null\<close>; the extractor yields \<open>NaN\<close>, since \<open>getTime()\<close> of an invalid date is \<open>NaN\<close>
  and nothing inside the \<open>try\<close> block throws.
\<close>

theorem duration_ms_unparsable:
  "run_start_time run = Some s \<Longrightarrow> run_end_time run = Some e \<Longrightarrow> s \<noteq> [] \<Longrightarrow> e \<noteq> [] \<Longrightarrow>
   parse s = None \<or> parse e = None \<Longrightarrow>
   duration_ms (extractRunMetadata parse run) = Some NaN"
  by (auto simp add: duration_ms_extract durationMs_of_def)

theorem duration_ms_unparsable_witness:
  "duration_ms (extractRunMetadata example_parse
      ((blank_run ''r1'' :: nat RawRun)\<lparr> run_start_time := Some ''yesterday'',
                                          run_end_time := Some ''2025-01-01T00:00:01Z'' \<rparr>))
   = Some NaN"
  using duration_ms_unparsable
    [of "(blank_run ''r1'' :: nat RawRun)\<lparr> run_start_time := Some ''yesterday'',
                                            run_end_time := Some ''2025-01-01T00:00:01Z'' \<rparr>"
        "''yesterday''" "''2025-01-01T00:00:01Z''" example_parse]
  by (simp add: blank_run_def example_parse_def)

section \<open>Message-stream parser\<close>

lemma parse_segments_acc:
  "parse_segments decode segs acc =
     acc @ List.map_filter decode (filter (\<lambda>s. s \<noteq> []) (map trim segs))"
  by (induction segs arbitrary: acc)
     (auto simp add: List.map_filter_simps Let_def split: option.splits)

lemma parse_messages_map_filter:
  "parse_messages decode messagesText =
     List.map_filter decode (filter (\<lambda>s. s \<noteq> []) (map trim (split_blank [] messagesText)))"
  by (simp add: parse_messages_def parse_segments_acc)

subsection \<open>What the split does\<close>

lemma split_blank_nonempty: "split_blank cur s \<noteq> []"
  by (induction cur s rule: split_blank.induct) auto

lemma join_blank_Cons: "ys \<noteq> [] \<Longrightarrow> join_blank (x # ys) = x @ [nl, nl] @ join_blank ys"
  by (cases ys) auto

text \<open>Joining the segments with blank lines gives the text back.\<close>

lemma join_split_blank: "join_blank (split_blank cur s) = cur @ s"
  by (induction cur s rule: split_blank.induct)
     (auto simp add: join_blank_Cons split_blank_nonempty)

lemma has_blank_snoc:
  "has_blank (xs @ [c]) \<longleftrightarrow> has_blank xs \<or> (xs \<noteq> [] \<and> last xs = nl \<and> c = nl)"
  by (induction xs rule: has_blank.induct) auto

text \<open>
  No segment has a blank line, and no segment that a separator follows ends in a
  newline: the separators are the leftmost blank lines.
\<close>

lemma split_blank_segments:
  "\<not> has_blank cur \<Longrightarrow> (cur \<noteq> [] \<and> last cur = nl \<longrightarrow> s = [] \<or> hd s \<noteq> nl) \<Longrightarrow>
   (\<forall>seg\<in>set (split_blank cur s). \<not> has_blank seg) \<and>
   (\<forall>seg\<in>set (butlast (split_blank cur s)). seg = [] \<or> last seg \<noteq> nl)"
proof (induction cur s rule: split_blank.induct)
  case (1 cur)
  then show ?case by simp
next
  case (2 cur c)
  then show ?case by (auto simp add: has_blank_snoc)
next
  case (3 cur c d cs)
  show ?case
  proof (cases "c = nl \<and> d = nl")
    case True
    then have cur_end: "cur = [] \<or> last cur \<noteq> nl"
      using "3.prems"(2) by auto
    have "(\<forall>seg\<in>set (split_blank [] cs). \<not> has_blank seg) \<and>
          (\<forall>seg\<in>set (butlast (split_blank [] cs)). seg = [] \<or> last seg \<noteq> nl)"
      using "3.IH"(1) [OF True] by simp
    then show ?thesis
      using True "3.prems"(1) cur_end by (auto simp add: split_blank_nonempty)
  next
    case False
    have a: "\<not> has_blank (cur @ [c])"
      using "3.prems" by (auto simp add: has_blank_snoc)
    have b: "cur @ [c] \<noteq> [] \<and> last (cur @ [c]) = nl \<longrightarrow> d # cs = [] \<or> hd (d # cs) \<noteq> nl"
      using False by auto
    have "split_blank cur (c # d # cs) = split_blank (cur @ [c]) (d # cs)"
      using False by auto
    then show ?thesis
      using "3.IH"(2) [OF False a b] by simp
  qed
qed

lemma split_blank_append:
  "a = [] \<or> last a \<noteq> nl \<Longrightarrow>
   split_blank cur (a @ nl # nl # rest) = split_blank cur a @ split_blank [] rest"
  by (induction cur a rule: split_blank.induct) (auto split: if_splits)

lemma split_blank_no_nl: "nl \<notin> set s \<Longrightarrow> split_blank cur s = [cur @ s]"
  by (induction cur s rule: split_blank.induct) auto

subsection \<open>What the trim does\<close>

text \<open>
  A text is its trimmed text between a run of white space and another, and the
  trimmed text neither begins nor ends with white space.
\<close>

lemma trim_decompose:
  "s = takeWhile is_space s @ trim s @ rev (takeWhile is_space (rev (dropWhile is_space s)))"
proof -
  have "rev (dropWhile is_space s) =
          takeWhile is_space (rev (dropWhile is_space s)) @
          dropWhile is_space (rev (dropWhile is_space s))"
    by simp
  then have "dropWhile is_space s =
          rev (dropWhile is_space (rev (dropWhile is_space s))) @
          rev (takeWhile is_space (rev (dropWhile is_space s)))"
    by (metis rev_append rev_rev_ident)
  then have "takeWhile is_space s @ dropWhile is_space s =
          takeWhile is_space s @ trim s @ rev (takeWhile is_space (rev (dropWhile is_space s)))"
    by (simp add: trim_def)
  then show ?thesis by simp
qed

lemma last_dropWhile: "dropWhile P xs \<noteq> [] \<Longrightarrow> last (dropWhile P xs) = last xs"
  by (metis last_appendR takeWhile_dropWhile_id)

lemma trim_ends:
  assumes "trim s \<noteq> []"
  shows "\<not> is_space (hd (trim s)) \<and> \<not> is_space (last (trim s))"
proof -
  let ?d = "dropWhile is_space s"
  let ?e = "dropWhile is_space (rev ?d)"
  have e: "?e \<noteq> []" using assms by (simp add: trim_def)
  then have d: "?d \<noteq> []"
    by (metis dropWhile.simps(1) rev.simps(1))
  have "last (trim s) = hd ?e"
    using e by (simp add: trim_def last_rev)
  moreover have "\<not> is_space (hd ?e)"
    using e hd_dropWhile by blast
  moreover have "hd (trim s) = last ?e"
    using e by (simp add: trim_def hd_rev)
  moreover have "last ?e = hd ?d"
    using e d by (simp add: last_dropWhile last_rev)
  moreover have "\<not> is_space (hd ?d)"
    using d hd_dropWhile by blast
  ultimately show ?thesis by simp
qed

lemma white_space_chars:
  "{CHR 0x09, CHR 0x0A, CHR 0x0B, CHR 0x0C, CHR 0x0D, CHR 0x20, CHR 0xA0} = Collect is_space"
  unfolding is_space_def by (rule set_eqI) simp

lemma trim_between_white_space:
  "\<exists>pre post. s = pre @ trim s @ post
     \<and> set pre \<subseteq> {CHR 0x09, CHR 0x0A, CHR 0x0B, CHR 0x0C, CHR 0x0D, CHR 0x20, CHR 0xA0}
     \<and> set post \<subseteq> {CHR 0x09, CHR 0x0A, CHR 0x0B, CHR 0x0C, CHR 0x0D, CHR 0x20, CHR 0xA0}"
  unfolding white_space_chars
proof (intro exI conjI)
  show "s = takeWhile is_space s @ trim s @ rev (takeWhile is_space (rev (dropWhile is_space s)))"
    by (rule trim_decompose)
  show "set (takeWhile is_space s) \<subseteq> Collect is_space"
    by (auto dest: set_takeWhileD)
  show "set (rev (takeWhile is_space (rev (dropWhile is_space s)))) \<subseteq> Collect is_space"
    by (auto dest: set_takeWhileD)
qed

lemma trim_no_white_space_ends:
  "trim s = [] \<or>
     (hd (trim s) \<notin> {CHR 0x09, CHR 0x0A, CHR 0x0B, CHR 0x0C, CHR 0x0D, CHR 0x20, CHR 0xA0}
      \<and> last (trim s) \<notin> {CHR 0x09, CHR 0x0A, CHR 0x0B, CHR 0x0C, CHR 0x0D, CHR 0x20, CHR 0xA0})"
  unfolding white_space_chars using trim_ends [of s] by auto

subsection \<open>A segment that does not decode\<close>

lemma parse_messages_append:
  assumes "a = [] \<or> last a \<noteq> nl"
  shows "parse_messages decode (a @ nl # nl # rest) =
         parse_messages decode a @ parse_messages decode rest"
  using assms by (simp add: parse_messages_map_filter split_blank_append List.map_filter_def)

lemma parse_messages_bad:
  assumes "nl \<notin> set bad" "decode (trim bad) = None"
  shows "parse_messages decode bad = []"
  using assms by (simp add: parse_messages_map_filter split_blank_no_nl List.map_filter_def)

lemma parse_messages_insert_bad:
  assumes "a = [] \<or> last a \<noteq> nl" "nl \<notin> set bad" "decode (trim bad) = None"
  shows "parse_messages decode (a @ [nl, nl] @ bad @ [nl, nl] @ b) =
         parse_messages decode (a @ [nl, nl] @ b)"
proof -
  have bad_end: "bad = [] \<or> last bad \<noteq> nl"
    by (metis assms(2) last_in_set)
  have "parse_messages decode (a @ [nl, nl] @ bad @ [nl, nl] @ b) =
        parse_messages decode a @ parse_messages decode (bad @ nl # nl # b)"
    using parse_messages_append [OF assms(1)] by simp
  also have "parse_messages decode (bad @ nl # nl # b) =
             parse_messages decode bad @ parse_messages decode b"
    by (rule parse_messages_append [OF bad_end])
  also have "parse_messages decode bad = []"
    using assms(2,3) by (rule parse_messages_bad)
  finally show ?thesis
    using parse_messages_append [OF assms(1), of decode b] by simp
qed

text \<open>
  C7. The messages parsed from a blob are the decoded segments, in source order, of the
  blob split on the blank line, each segment trimmed, the empty ones discarded and the
  ones that fail to decode dropped. The split is the one on two consecutive newlines:
  the segments joined by blank lines are the blob, no segment has a blank line, and no
  segment before a separator ends in a newline. The trim removes white space, and
  nothing else, from both ends: the segment is its trimmed text between two runs of
  white space, and the trimmed text does not begin or end with white space. A segment
  that fails to decode, put between two parts of a blob, changes nothing in what is
  parsed from the two parts.
\<close>

theorem parse_messages_spec:
  "parse_messages decode messagesText =
     List.map_filter decode (filter (\<lambda>s. s \<noteq> []) (map trim (split_blank [] messagesText)))
   \<and> join_blank (split_blank [] messagesText) = messagesText
   \<and> (\<forall>seg\<in>set (split_blank [] messagesText). \<not> has_blank seg)
   \<and> (\<forall>seg\<in>set (butlast (split_blank [] messagesText)). seg = [] \<or> last seg \<noteq> nl)
   \<and> (\<exists>pre post. s = pre @ trim s @ post
        \<and> set pre \<subseteq> {CHR 0x09, CHR 0x0A, CHR 0x0B, CHR 0x0C, CHR 0x0D, CHR 0x20, CHR 0xA0}
        \<and> set post \<subseteq> {CHR 0x09, CHR 0x0A, CHR 0x0B, CHR 0x0C, CHR 0x0D, CHR 0x20, CHR 0xA0})
   \<and> (trim s = [] \<or>
        (hd (trim s) \<notin> {CHR 0x09, CHR 0x0A, CHR 0x0B, CHR 0x0C, CHR 0x0D, CHR 0x20, CHR 0xA0}
         \<and> last (trim s) \<notin> {CHR 0x09, CHR 0x0A, CHR 0x0B, CHR 0x0C, CHR 0x0D, CHR 0x20, CHR 0xA0}))
   \<and> ((a = [] \<or> last a \<noteq> nl) \<and> nl \<notin> set bad \<and> decode (trim bad) = None \<longrightarrow>
        parse_messages decode (a @ [nl, nl] @ bad @ [nl, nl] @ b) =
        parse_messages decode (a @ [nl, nl] @ b))"
proof -
  have seg: "(\<forall>seg\<in>set (split_blank [] messagesText). \<not> has_blank seg) \<and>
             (\<forall>seg\<in>set (butlast (split_blank [] messagesText)). seg = [] \<or> last seg \<noteq> nl)"
    by (rule split_blank_segments) simp_all
  have join: "join_blank (split_blank [] messagesText) = messagesText"
    by (simp add: join_split_blank)
  have ins: "(a = [] \<or> last a \<noteq> nl) \<and> nl \<notin> set bad \<and> decode (trim bad) = None \<longrightarrow>
        parse_messages decode (a @ [nl, nl] @ bad @ [nl, nl] @ b) =
        parse_messages decode (a @ [nl, nl] @ b)"
    by (intro impI, elim conjE, rule parse_messages_insert_bad)
  show ?thesis
    by (intro conjI parse_messages_map_filter join seg [THEN conjunct1] seg [THEN conjunct2]
          trim_between_white_space trim_no_white_space_ends ins)
qed

lemma example_blob_split:
  "split_blank [] example_blob =
     ['' {human} '', [], ''not json'', [CHR 0x09] @ ''{a'' @ [nl] @ ''b}'' @ [nl]]"
  by (simp add: example_blob_def nl_def)

lemma example_blob_trim:
  "map trim ['' {human} '', [], ''not json'', [CHR 0x09] @ ''{a'' @ [nl] @ ''b}'' @ [nl]]
     = [''{human}'', [], ''not json'', ''{a'' @ [nl] @ ''b}'']"
  by (simp add: trim_def is_space_def nl_def)

theorem parse_messages_spec_witness:
  "split_blank [] example_blob =
     ['' {human} '', [], ''not json'', [CHR 0x09] @ ''{a'' @ [nl] @ ''b}'' @ [nl]]
   \<and> trim '' {human} '' = ''{human}''
   \<and> trim ([CHR 0x09] @ ''{a'' @ [nl] @ ''b}'' @ [nl]) = ''{a'' @ [nl] @ ''b}''
   \<and> parse_messages example_decode example_blob = [''{human}'', ''{a'' @ [nl] @ ''b}'']
   \<and> join_blank ['' {human} '', [], ''not json'', [CHR 0x09] @ ''{a'' @ [nl] @ ''b}'' @ [nl]]
       = example_blob
   \<and> \<not> has_blank ([CHR 0x09] @ ''{a'' @ [nl] @ ''b}'' @ [nl])
   \<and> hd (trim '' {human} '') = CHR ''{'' \<and> last (trim '' {human} '') = CHR ''}''
   \<and> parse_messages example_decode ('' {human} '' @ [nl, nl] @ ''not json'' @ [nl, nl] @ ''{ai}'')
       = parse_messages example_decode ('' {human} '' @ [nl, nl] @ ''{ai}'')"
proof -
  have bad: "('' {human} '' = [] \<or> last '' {human} '' \<noteq> nl) \<and> nl \<notin> set ''not json'' \<and>
             example_decode (trim ''not json'') = None"
    by (simp add: nl_def trim_def is_space_def example_decode_def)
  note claim = parse_messages_spec
    [of example_decode example_blob "'' {human} ''" "'' {human} ''" "''not json''" "''{ai}''"]
  have parsed: "parse_messages example_decode example_blob =
      List.map_filter example_decode
        (filter (\<lambda>s. s \<noteq> []) (map trim (split_blank [] example_blob)))"
    by (rule claim [THEN conjunct1])
  have joined: "join_blank (split_blank [] example_blob) = example_blob"
    by (rule claim [THEN conjunct2, THEN conjunct1])
  have no_blank: "\<forall>seg\<in>set (split_blank [] example_blob). \<not> has_blank seg"
    by (rule claim [THEN conjunct2, THEN conjunct2, THEN conjunct1])
  have inserted: "parse_messages example_decode
                    ('' {human} '' @ [nl, nl] @ ''not json'' @ [nl, nl] @ ''{ai}'')
       = parse_messages example_decode ('' {human} '' @ [nl, nl] @ ''{ai}'')"
    by (rule claim [THEN conjunct2, THEN conjunct2, THEN conjunct2, THEN conjunct2, THEN conjunct2,
                    THEN conjunct2, THEN mp, OF bad])
  have trims: "trim '' {human} '' = ''{human}''"
              "trim ([CHR 0x09] @ ''{a'' @ [nl] @ ''b}'' @ [nl]) = ''{a'' @ [nl] @ ''b}''"
    using example_blob_trim by simp_all
  have p: "parse_messages example_decode example_blob = [''{human}'', ''{a'' @ [nl] @ ''b}'']"
    unfolding parsed example_blob_split example_blob_trim
    by (simp add: List.map_filter_def example_decode_def nl_def)
  have j: "join_blank ['' {human} '', [], ''not json'', [CHR 0x09] @ ''{a'' @ [nl] @ ''b}'' @ [nl]]
             = example_blob"
    using joined unfolding example_blob_split .
  have nb: "\<not> has_blank ([CHR 0x09] @ ''{a'' @ [nl] @ ''b}'' @ [nl])"
    using no_blank unfolding example_blob_split by simp
  have he: "hd (trim '' {human} '') = CHR ''{'' \<and> last (trim '' {human} '') = CHR ''}''"
    unfolding trims by simp
  show ?thesis
    by (intro conjI example_blob_split trims p j nb he [THEN conjunct1] he [THEN conjunct2]
          inserted)
qed

section \<open>fetchTrace: optional fields and the feedback lookup\<close>

lemma fetchTrace_fields:
  "fetchTrace env parse traceId options = (evs, Inr tr) \<Longrightarrow>
     (metadata tr \<noteq> None \<longleftrightarrow> wants options includeMetadata \<or> wants options includeFeedback) \<and>
     (feedback tr \<noteq> None \<longleftrightarrow> wants options includeMetadata \<or> wants options includeFeedback) \<and>
     (wants options includeMetadata \<and> \<not> wants options includeFeedback \<longrightarrow> feedback tr = Some [])"
  by (auto simp add: fetchTrace_def Let_def split: prod.splits sum.splits if_splits)

text \<open>
  C8, as claimed: metadata is present iff metadata was requested, feedback iff feedback
  was requested. With metadata alone requested the result has a feedback field (an
  empty list), and with feedback alone requested it has a metadata field.
\<close>

theorem fetchTrace_fields_counterexample:
  "map_sum id feedback (snd (fetchTrace example_remote example_parse ''A''
      (Some \<lparr> includeMetadata = Some True, includeFeedback = Some False \<rparr>))) = Inr (Some [])
   \<and> map_sum id metadata (snd (fetchTrace example_remote example_parse ''A''
      (Some \<lparr> includeMetadata = Some False, includeFeedback = Some True \<rparr>)))
       = Inr (Some (extractRunMetadata example_parse (stored_run ''A'')))"
  by (simp add: fetchTrace_def apiRequest_def getApiKey_def example_remote_def wants_def
        hasFeedback_def Let_def)
     (simp add: extractRunMetadata_def stored_run_def)

text \<open>
  C8, amended: in a trace that \<open>fetchTrace\<close> returns, the metadata field and the
  feedback field are both present when the caller requested metadata or feedback, and
  both absent when the caller requested neither; with metadata requested and feedback
  not, the feedback field is the empty list.
\<close>

theorem fetchTrace_optional_fields:
  "fetchTrace env parse traceId options = (evs, Inr tr) \<Longrightarrow>
     (metadata tr \<noteq> None \<longleftrightarrow> wants options includeMetadata \<or> wants options includeFeedback) \<and>
     (feedback tr \<noteq> None \<longleftrightarrow> wants options includeMetadata \<or> wants options includeFeedback) \<and>
     (wants options includeMetadata \<and> \<not> wants options includeFeedback \<longrightarrow> feedback tr = Some [])"
  by (rule fetchTrace_fields)

theorem fetchTrace_optional_fields_witness:
  "fetchTrace example_remote example_parse ''A''
       (Some \<lparr> includeMetadata = Some True, includeFeedback = None \<rparr>)
     = ([Request (GetRun ''A'')],
        Inr \<lparr> trace_id = ''A'', trace_messages = [''A''],
              metadata = Some (extractRunMetadata example_parse (stored_run ''A'')),
              feedback = Some [] \<rparr>)
   \<and> wants (Some \<lparr> includeMetadata = Some True, includeFeedback = None \<rparr>) includeMetadata
   \<and> \<not> wants (Some \<lparr> includeMetadata = Some True, includeFeedback = None \<rparr>) includeFeedback
   \<and> fetchTrace example_remote example_parse ''A'' None
     = ([Request (GetRun ''A'')],
        Inr \<lparr> trace_id = ''A'', trace_messages = [''A''], metadata = None, feedback = None \<rparr>)"
proof -
  have h: "fetchTrace example_remote example_parse ''A''
             (Some \<lparr> includeMetadata = Some True, includeFeedback = None \<rparr>)
           = ([Request (GetRun ''A'')],
              Inr \<lparr> trace_id = ''A'', trace_messages = [''A''],
                    metadata = Some (extractRunMetadata example_parse (stored_run ''A'')),
                    feedback = Some [] \<rparr>)"
    by (simp add: fetchTrace_def apiRequest_def getApiKey_def example_remote_def wants_def
          Let_def messages_of_def)
       (simp add: stored_run_def blank_run_def)
  have h0: "fetchTrace example_remote example_parse ''A'' None
            = ([Request (GetRun ''A'')],
               Inr \<lparr> trace_id = ''A'', trace_messages = [''A''],
                     metadata = None, feedback = None \<rparr>)"
    by (simp add: fetchTrace_def apiRequest_def getApiKey_def example_remote_def wants_def
          messages_of_def stored_run_def blank_run_def)
  show ?thesis
    using h h0 fetchTrace_optional_fields [OF h] fetchTrace_optional_fields [OF h0]
    by (simp add: wants_def)
qed

lemma stat_positive_iff: "stat_positive v \<longleftrightarrow> (\<exists>n. v = StatNum (Num n) \<and> 0 < n)"
  by (cases v rule: stat_positive.cases) (auto elim: js_positive.elims)

text \<open>Feedback is present when some feedback-stat value is a positive number.\<close>

lemma hasFeedback_iff:
  "hasFeedback md \<longleftrightarrow> (\<exists>k n. (k, StatNum (Num n)) \<in> set (feedback_stats md) \<and> 0 < n)"
  unfolding hasFeedback_def list_ex_iff
proof
  assume "\<exists>kv\<in>set (feedback_stats md). stat_positive (snd kv)"
  then obtain k v where kv: "(k, v) \<in> set (feedback_stats md)" "stat_positive v"
    by auto
  then show "\<exists>k n. (k, StatNum (Num n)) \<in> set (feedback_stats md) \<and> 0 < n"
    using stat_positive_iff [of v] by blast
next
  assume "\<exists>k n. (k, StatNum (Num n)) \<in> set (feedback_stats md) \<and> 0 < n"
  then obtain k n where kn: "(k, StatNum (Num n)) \<in> set (feedback_stats md)" "0 < n"
    by blast
  then have "stat_positive (snd (k, StatNum (Num n)))"
    by simp
  with kn(1) show "\<exists>kv\<in>set (feedback_stats md). stat_positive (snd kv)"
    by blast
qed

lemma apiRequest_ok_key:
  "apiRequest env req answer = (evs, Inr x) \<Longrightarrow>
   (\<exists>k. getApiKey env = Inr k) \<and> evs = [Request req] \<and> answer = OkJson x"
  by (auto simp add: apiRequest_def split: sum.splits reply.splits)

lemma fetchFeedback_requests:
  "getApiKey env = Inr k \<Longrightarrow> Request (GetFeedback runId) \<in> set (fst (fetchFeedback env runId))"
  by (auto simp add: fetchFeedback_def split: reply.splits feedback_payload.splits option.splits)

lemma fetchFeedback_not_ok:
  "getApiKey env = Inr k \<Longrightarrow> feedback_by_run env runId = NotOk st text \<Longrightarrow>
   fetchFeedback env runId = ([Request (GetFeedback runId), FeedbackWarning runId st], Inr [])"
  by (simp add: fetchFeedback_def)

text \<open>
  C9, as claimed: no failure of the feedback lookup reaches the caller. When the
  lookup gets no response, \<open>fetchTrace\<close> fails with the rejection of \<open>fetch\<close>.
\<close>

theorem fetchTrace_feedback_rejected_counterexample:
  "snd (fetchTrace example_remote example_parse ''F''
      (Some \<lparr> includeMetadata = Some False, includeFeedback = Some True \<rparr>)) = Inl FetchRejected"
  by (simp add: fetchTrace_def fetchFeedback_def apiRequest_def getApiKey_def example_remote_def
        wants_def extractRunMetadata_def hasFeedback_def blank_run_def stored_run_def)

text \<open>
  C9, amended: once the run is fetched, the feedback lookup is requested exactly when
  feedback was requested and the metadata has a feedback stat that is a positive
  number; and when that lookup is answered with a status that is not ok, a warning
  for the run with that status is logged and \<open>fetchTrace\<close> returns a trace whose
  feedback is the empty list.
\<close>

theorem fetchTrace_feedback_lookup:
  assumes run: "apiRequest env (GetRun traceId) (run_by_id env traceId) = (evs0, Inr run)"
  shows "(Request (GetFeedback traceId) \<in> set (fst (fetchTrace env parse traceId options)) \<longleftrightarrow>
            wants options includeFeedback \<and> hasFeedback (extractRunMetadata parse run))
       \<and> (hasFeedback (extractRunMetadata parse run) \<longleftrightarrow>
            (\<exists>k n. (k, StatNum (Num n)) \<in> set (feedback_stats (extractRunMetadata parse run)) \<and> 0 < n))
       \<and> (wants options includeFeedback \<and> hasFeedback (extractRunMetadata parse run) \<and>
          feedback_by_run env traceId = NotOk st text \<longrightarrow>
            FeedbackWarning traceId st \<in> set (fst (fetchTrace env parse traceId options)) \<and>
            map_sum id feedback (snd (fetchTrace env parse traceId options)) = Inr (Some []))"
proof -
  obtain k where k: "getApiKey env = Inr k" and evs0: "evs0 = [Request (GetRun traceId)]"
    using apiRequest_ok_key [OF run] by blast
  have req: "Request (GetFeedback traceId) \<in> set (fst (fetchFeedback env traceId))"
    by (rule fetchFeedback_requests [OF k])
  have a: "Request (GetFeedback traceId) \<in> set (fst (fetchTrace env parse traceId options)) \<longleftrightarrow>
            wants options includeFeedback \<and> hasFeedback (extractRunMetadata parse run)"
    using req by (auto simp add: fetchTrace_def run evs0 Let_def split: prod.splits sum.splits)
  have c: "FeedbackWarning traceId st \<in> set (fst (fetchTrace env parse traceId options)) \<and>
            map_sum id feedback (snd (fetchTrace env parse traceId options)) = Inr (Some [])"
    if "wants options includeFeedback" "hasFeedback (extractRunMetadata parse run)"
       "feedback_by_run env traceId = NotOk st text"
    using that fetchFeedback_not_ok [OF k that(3)]
    by (simp add: fetchTrace_def run Let_def)
  show ?thesis using a c hasFeedback_iff by blast
qed

theorem fetchTrace_feedback_lookup_witness:
  "apiRequest example_remote (GetRun ''G'') (run_by_id example_remote ''G'')
     = ([Request (GetRun ''G'')], Inr (stored_run ''G''))
   \<and> wants (Some \<lparr> includeMetadata = None, includeFeedback = Some True \<rparr>) includeFeedback
   \<and> hasFeedback (extractRunMetadata example_parse (stored_run ''G''))
   \<and> feedback_by_run example_remote ''G'' = NotOk 500 ''unavailable''
   \<and> Request (GetFeedback ''G'') \<in> set (fst (fetchTrace example_remote example_parse ''G''
        (Some \<lparr> includeMetadata = None, includeFeedback = Some True \<rparr>)))
   \<and> FeedbackWarning ''G'' 500 \<in> set (fst (fetchTrace example_remote example_parse ''G''
        (Some \<lparr> includeMetadata = None, includeFeedback = Some True \<rparr>)))
   \<and> map_sum id feedback (snd (fetchTrace example_remote example_parse ''G''
        (Some \<lparr> includeMetadata = None, includeFeedback = Some True \<rparr>))) = Inr (Some [])"
proof -
  have h: "apiRequest example_remote (GetRun ''G'') (run_by_id example_remote ''G'')
             = ([Request (GetRun ''G'')], Inr (stored_run ''G''))"
    by (simp add: apiRequest_def getApiKey_def example_remote_def)
  have w: "wants (Some \<lparr> includeMetadata = None, includeFeedback = Some True \<rparr>) includeFeedback"
    by (simp add: wants_def)
  have f: "hasFeedback (extractRunMetadata example_parse (stored_run ''G''))"
    by (simp add: hasFeedback_def extractRunMetadata_def stored_run_def blank_run_def)
  have n: "feedback_by_run example_remote ''G'' = NotOk 500 ''unavailable''"
    by (simp add: example_remote_def)
  show ?thesis
    using h w f n
      fetchTrace_feedback_lookup [OF h, of example_parse
        "Some \<lparr> includeMetadata = None, includeFeedback = Some True \<rparr>" 500 "''unavailable''"]
    by simp
qed

section \<open>Thread-id deduplicator\<close>

text \<open>
  The identifier read from a run is its \<open>thread_id\<close> when that is a string, and
  otherwise (missing or \<open>null\<close>) its \<open>session_id\<close> when that is a string.
\<close>

lemma threadId_of_thread_id:
  "map_of (customMetadata_of run) ''thread_id'' = Some (JStr t) \<Longrightarrow> threadId_of run = Some t"
  by (simp add: threadId_of_def)

lemma threadId_of_session_id:
  "map_of (customMetadata_of run) ''thread_id'' \<in> {None, Some JNull} \<Longrightarrow>
   map_of (customMetadata_of run) ''session_id'' = Some (JStr t) \<Longrightarrow> threadId_of run = Some t"
  by (auto simp add: threadId_of_def)

lemma candidate_ids_Cons:
  "candidate_ids (run # rest) =
     (case threadId_of run of
        None \<Rightarrow> candidate_ids rest
      | Some t \<Rightarrow> if t \<noteq> [] then t # candidate_ids rest else candidate_ids rest)"
  by (simp add: candidate_ids_def List.map_filter_simps split: option.splits)


lemma first_seen_set: "set (first_seen xs) = set xs"
  by (induction xs rule: first_seen.induct) auto

lemma first_seen_distinct: "distinct (first_seen xs)"
  by (induction xs rule: first_seen.induct) (auto simp add: first_seen_set)


text \<open>
  The keys of the map after the scan, from any map reached during it: the keys already
  there, then the new candidates in order of first occurrence, as many as bring the
  size to the limit and one in any case.
\<close>

lemma scan_threadIds_keys:
  "map fst (scan_threadIds (Num l) runs acc) =
     map fst acc @ take (nat (max 1 (l - int (length acc))))
                     (first_seen (filter (\<lambda>s. s \<notin> fst ` set acc) (candidate_ids runs)))"
proof (induction runs arbitrary: acc)
  case Nil
  then show ?case by (simp add: candidate_ids_def List.map_filter_simps)
next
  case (Cons run rest)
  show ?case
  proof (cases "threadId_of run")
    case None
    then show ?thesis using Cons.IH [of acc] by (simp add: candidate_ids_Cons)
  next
    case (Some t)
    show ?thesis
    proof (cases "t \<noteq> [] \<and> t \<notin> fst ` set acc")
      case False
      then show ?thesis using Some Cons.IH [of acc] by (auto simp add: candidate_ids_Cons)
    next
      case fresh: True
      let ?acc' = "acc @ [(t, run_start_time run)]"
      have filt: "filter (\<lambda>s. s \<notin> fst ` set ?acc') (candidate_ids rest) =
                  filter (\<lambda>y. y \<noteq> t) (filter (\<lambda>s. s \<notin> fst ` set acc) (candidate_ids rest))"
        by (auto intro: filter_cong)
      show ?thesis
      proof (cases "l \<le> int (length acc) + 1")
        case True
        then have "nat (max 1 (l - int (length acc))) = Suc 0" by auto
        then show ?thesis using Some fresh True
          by (simp add: candidate_ids_Cons Let_def)
      next
        case False
        then have "nat (max 1 (l - int (length acc))) = Suc (nat (max 1 (l - int (length ?acc'))))"
          by auto
        then show ?thesis using Some fresh False Cons.IH [of ?acc'] filt
          by (simp add: candidate_ids_Cons Let_def)
      qed
    qed
  qed
qed

lemma scan_threadIds_ids:
  "map fst (scan_threadIds (Num l) runs []) =
     take (nat (max 1 l)) (first_seen (candidate_ids runs))"
  using scan_threadIds_keys [of l runs "[]"] by simp

text \<open>
  For a limit of at least one the selected ids are the first \<open>limit\<close> distinct
  candidates, in order of first occurrence; ids a, a, b, a, c with limit 2 give a, b.
\<close>

lemma scan_threadIds_positive_limit:
  "1 \<le> l \<Longrightarrow> map fst (scan_threadIds (Num l) runs []) =
     take (nat l) (first_seen (candidate_ids runs))"
  by (simp add: scan_threadIds_ids max_def)

lemma scan_threadIds_example:
  "map fst (scan_threadIds (Num 2) (map thread_run [''a'', ''a'', ''b'', ''a'', ''c'']) [])
     = [''a'', ''b'']"
  by (simp add: thread_run_def threadId_of_def customMetadata_of_def blank_run_def)

text \<open>
  C6. With a limit of 0 the collection has reached the limit before the first run is
  read, and the claim has the scan stop there. The size test of the source is made
  only after an insertion: one run with thread id a is enough to select a.
\<close>

theorem scan_threadIds_limit_zero:
  "map fst (scan_threadIds (Num 0) [thread_run ''a''] []) = [''a'']
   \<and> \<not> length (scan_threadIds (Num 0) [thread_run ''a''] []) \<le> 0"
  by (simp add: thread_run_def threadId_of_def customMetadata_of_def blank_run_def)

section \<open>Bulk orchestrator: results and progress\<close>

lemma progress_calls_append:
  "progress_calls (a @ b) = progress_calls a @ progress_calls b"
  by (induction a rule: progress_calls.induct) auto

lemma progress_calls_notify:
  "progress_calls (notify cb c n) = (if cb = None then [] else [(c, n)])"
  by (simp add: notify_def split: option.splits)

text \<open>
  A settlement at which the callback does not throw: the slot of the task gets what
  its fetch resolved to, the count grows by one, and no task rejects.
\<close>

lemma settle_slots:
  "i < length tasks \<Longrightarrow> \<not> throws cb (Suc (completed st)) n \<Longrightarrow>
   slots (settle cb n tasks st i) = (slots st)[i := Some (resolved (snd (tasks ! i)))]"
  by (auto simp add: settle_def catch_block_def Let_def split: prod.splits sum.splits)

lemma settle_completed:
  "i < length tasks \<Longrightarrow> \<not> throws cb (Suc (completed st)) n \<Longrightarrow>
   completed (settle cb n tasks st i) = Suc (completed st)"
  by (auto simp add: settle_def catch_block_def Let_def split: prod.splits sum.splits)

lemma settle_rejection:
  "i < length tasks \<Longrightarrow> \<not> throws cb (Suc (completed st)) n \<Longrightarrow>
   rejection (settle cb n tasks st i) = rejection st"
  by (auto simp add: settle_def catch_block_def Let_def split: prod.splits sum.splits)

lemma settle_progress:
  "i < length tasks \<Longrightarrow> \<not> throws cb (Suc (completed st)) n \<Longrightarrow>
   progress_calls (batch_events (settle cb n tasks st i)) =
     progress_calls (batch_events st) @ (if cb = None then [] else [(Suc (completed st), n)])"
  by (auto simp add: settle_def catch_block_def Let_def progress_calls_append
        progress_calls_notify split: prod.splits sum.splits)

lemma settle_slots_length:
  "length (slots (settle cb n tasks st i)) = length (slots st)"
  by (auto simp add: settle_def catch_block_def Let_def split: prod.splits sum.splits)

lemma foldl_settle_slots_length:
  "length (slots (foldl (settle cb n tasks) st order)) = length (slots st)"
  by (induction order arbitrary: st) (auto simp add: settle_slots_length)

text \<open>
  A sequence of settlements during which the callback does not throw. The invocations
  made are those with the counts after the one reached before.
\<close>

lemma foldl_settle_quiet:
  assumes "\<forall>i\<in>set order. i < length tasks"
    and "\<forall>c. completed st < c \<and> c \<le> completed st + length order \<longrightarrow> \<not> throws cb c n"
  shows "completed (foldl (settle cb n tasks) st order) = completed st + length order"
    and "rejection (foldl (settle cb n tasks) st order) = rejection st"
    and "progress_calls (batch_events (foldl (settle cb n tasks) st order)) =
           progress_calls (batch_events st) @
             (if cb = None then []
              else map (\<lambda>c. (c, n)) [Suc (completed st) ..< Suc (completed st) + length order])"
    and "j < length (slots st) \<Longrightarrow>
         slots (foldl (settle cb n tasks) st order) ! j =
           (if j \<in> set order then Some (resolved (snd (tasks ! j))) else slots st ! j)"
  using assms
proof (induction order arbitrary: st)
  case Nil
  {
    case 1 show ?case by simp
  next
    case 2 show ?case by simp
  next
    case 3 show ?case by simp
  next
    case 4 show ?case by simp
  }
next
  case (Cons i order)
  {
    case 1
    have i: "i < length tasks" and rest: "\<forall>k\<in>set order. k < length tasks"
      using 1(1) by auto
    have q: "\<not> throws cb (Suc (completed st)) n"
      using 1(2) by simp
    have q': "\<forall>c. completed (settle cb n tasks st i) < c \<and>
                  c \<le> completed (settle cb n tasks st i) + length order \<longrightarrow> \<not> throws cb c n"
      using 1(2) by (simp add: settle_completed [OF i q])
    show ?case
      using Cons.IH(1) [OF rest q'] by (simp add: settle_completed [OF i q])
  next
    case 2
    have i: "i < length tasks" and rest: "\<forall>k\<in>set order. k < length tasks"
      using 2(1) by auto
    have q: "\<not> throws cb (Suc (completed st)) n"
      using 2(2) by simp
    have q': "\<forall>c. completed (settle cb n tasks st i) < c \<and>
                  c \<le> completed (settle cb n tasks st i) + length order \<longrightarrow> \<not> throws cb c n"
      using 2(2) by (simp add: settle_completed [OF i q])
    show ?case
      using Cons.IH(2) [OF rest q'] by (simp add: settle_rejection [OF i q])
  next
    case 3
    have i: "i < length tasks" and rest: "\<forall>k\<in>set order. k < length tasks"
      using 3(1) by auto
    have q: "\<not> throws cb (Suc (completed st)) n"
      using 3(2) by simp
    have q': "\<forall>c. completed (settle cb n tasks st i) < c \<and>
                  c \<le> completed (settle cb n tasks st i) + length order \<longrightarrow> \<not> throws cb c n"
      using 3(2) by (simp add: settle_completed [OF i q])
    have upt: "[Suc (completed st) ..< Suc (completed st) + length (i # order)] =
               Suc (completed st) #
                 [Suc (Suc (completed st)) ..< Suc (Suc (completed st)) + length order]"
      using upt_conv_Cons [of "Suc (completed st)" "Suc (Suc (completed st)) + length order"]
      by simp
    have step: "progress_calls (batch_events (foldl (settle cb n tasks) st (i # order))) =
          (progress_calls (batch_events st) @
             (if cb = None then [] else [(Suc (completed st), n)])) @
          (if cb = None then []
           else map (\<lambda>c. (c, n))
                  [Suc (Suc (completed st)) ..< Suc (Suc (completed st)) + length order])"
      using Cons.IH(3) [OF rest q']
      by (simp only: foldl_Cons settle_progress [OF i q] settle_completed [OF i q])
    show ?case
      by (simp only: step upt) simp
  next
    case 4
    have i: "i < length tasks" and rest: "\<forall>k\<in>set order. k < length tasks"
      using 4(2) by auto
    have q: "\<not> throws cb (Suc (completed st)) n"
      using 4(3) by simp
    have q': "\<forall>c. completed (settle cb n tasks st i) < c \<and>
                  c \<le> completed (settle cb n tasks st i) + length order \<longrightarrow> \<not> throws cb c n"
      using 4(3) by (simp add: settle_completed [OF i q])
    have len: "j < length (slots (settle cb n tasks st i))"
      using 4(1) by (simp add: settle_slots_length)
    show ?case
      using Cons.IH(4) [OF len rest q'] 4(1)
      by (auto simp add: settle_slots [OF i q] nth_list_update)
  }
qed

lemma Promise_all_settled: "Promise_all (map Some vs) = Some vs"
  by (induction vs) auto

lemma Promise_all_pending: "None \<in> set ps \<Longrightarrow> Promise_all ps = None"
  by (induction ps rule: Promise_all.induct) auto

lemma non_null_resolved: "non_null (map resolved outs) = successful outs"
  by (induction outs rule: successful.induct) auto

lemma returns_normally_calls:
  assumes "returns_normally cb n" "length order = n"
  shows "\<forall>c. 0 < c \<and> c \<le> 0 + length order \<longrightarrow> \<not> throws cb c n"
  using assms by (auto simp add: returns_normally_def)

lemma run_batch_quiet:
  assumes "distinct order" "set order = {..<length tasks}"
    and "returns_normally cb (length tasks)"
  shows "slots (run_batch cb tasks order) = map Some (map resolved (map snd tasks))"
    and "rejection (run_batch cb tasks order) = None"
    and "progress_calls (batch_events (run_batch cb tasks order)) =
           (if cb = None then [] else map (\<lambda>c. (c, length tasks)) [1 ..< Suc (length tasks)])"
proof -
  let ?st = "\<lparr> completed = 0, batch_events = [],
               slots = replicate (length tasks) (None :: 'a option option),
               rejection = None \<rparr>"
  have inr: "\<forall>i\<in>set order. i < length tasks"
    using assms(2) by simp
  have len: "length order = length tasks"
    using assms(1,2) distinct_card [of order] by simp
  have q: "\<forall>c. completed ?st < c \<and> c \<le> completed ?st + length order \<longrightarrow>
               \<not> throws cb c (length tasks)"
    using returns_normally_calls [OF assms(3) len] by simp
  show "rejection (run_batch cb tasks order) = None"
    unfolding run_batch_def using foldl_settle_quiet(2) [OF inr q] by simp
  show "progress_calls (batch_events (run_batch cb tasks order)) =
           (if cb = None then [] else map (\<lambda>c. (c, length tasks)) [1 ..< Suc (length tasks)])"
    unfolding run_batch_def using foldl_settle_quiet(3) [OF inr q] len by simp
  show "slots (run_batch cb tasks order) = map Some (map resolved (map snd tasks))"
  proof (rule nth_equalityI)
    show "length (slots (run_batch cb tasks order)) =
          length (map Some (map resolved (map snd tasks)))"
      by (simp add: run_batch_def foldl_settle_slots_length)
  next
    fix j assume "j < length (slots (run_batch cb tasks order))"
    then have j: "j < length tasks"
      by (simp add: run_batch_def foldl_settle_slots_length)
    then have j': "j < length (slots ?st)"
      by simp
    show "slots (run_batch cb tasks order) ! j = map Some (map resolved (map snd tasks)) ! j"
      unfolding run_batch_def
      using foldl_settle_quiet(4) [OF inr q j'] j assms(2) by simp
  qed
qed

text \<open>
  When \<open>pLimit\<close> accepts the concurrency, the callback returns normally and every task
  settles exactly once, in whatever order, the batch returns the successful results in
  task order and has called the callback with 1, 2, ..., up to the number of tasks.
\<close>

lemma bulk_result:
  assumes "pLimit_accepts k" "distinct order" "set order = {..<length tasks}"
    and "returns_normally cb (length tasks)"
  shows "snd (bulk k cb tasks order) = Some (Inr (successful (map snd tasks)))"
proof -
  have "Promise_all (slots (run_batch cb tasks order)) = Some (map resolved (map snd tasks))"
    by (simp only: run_batch_quiet(1) [OF assms(2,3,4)] Promise_all_settled)
  moreover have "non_null (map (resolved \<circ> snd) tasks) = successful (map snd tasks)"
    using non_null_resolved [of "map snd tasks"] by simp
  ultimately show ?thesis
    using assms(1) run_batch_quiet(2) [OF assms(2,3,4)]
    by (simp add: bulk_def Let_def)
qed

lemma bulk_progress:
  assumes "pLimit_accepts k" "distinct order" "set order = {..<length tasks}"
    and "returns_normally cb (length tasks)"
  shows "progress_calls (fst (bulk k cb tasks order)) =
           (if cb = None then [] else map (\<lambda>c. (c, length tasks)) [1 ..< Suc (length tasks)])"
  using assms(1) run_batch_quiet(3) [OF assms(2,3,4)]
  by (simp add: bulk_def Let_def)

text \<open>When \<open>pLimit\<close> refuses the concurrency no task is created.\<close>

lemma bulk_refused: "\<not> pLimit_accepts k \<Longrightarrow> bulk k cb tasks order = ([], Some (Inl TypeError))"
  by (simp add: bulk_def)

lemma bulk_no_tasks: "pLimit_accepts k \<Longrightarrow> bulk k cb [] order = ([], Some (Inr []))"
proof -
  assume k: "pLimit_accepts k"
  have "foldl (settle cb 0 []) st order = st" for st :: "'a batch"
    by (induction order) (auto simp add: settle_def)
  then show ?thesis
    using k by (simp add: bulk_def run_batch_def Let_def)
qed

subsection \<open>The two bulk fetchers\<close>

text \<open>
  The merge of the query's metadata never changes a trace: a trace fetched with
  metadata asked for has metadata.
\<close>

lemma trace_task_outcome:
  "snd (trace_task env parse wantMetadata wantFeedback run) =
     snd (fetchTrace env parse (run_id run)
            (Some \<lparr> includeMetadata = Some wantMetadata, includeFeedback = Some wantFeedback \<rparr>))"
proof (cases "fetchTrace env parse (run_id run)
            (Some \<lparr> includeMetadata = Some wantMetadata, includeFeedback = Some wantFeedback \<rparr>)")
  case (Pair evs res)
  show ?thesis
  proof (cases res)
    case (Inl e)
    then show ?thesis using Pair by (simp add: trace_task_def)
  next
    case (Inr tr)
    then have "wantMetadata \<longrightarrow> metadata tr \<noteq> None"
      using fetchTrace_fields [of env parse "run_id run" _ evs tr] Pair
      by (simp add: wants_def)
    then show ?thesis using Pair Inr by (auto simp add: trace_task_def)
  qed
qed

lemma fetchTraces_unfold:
  assumes "traces_query_body parse now opts = Inr body"
    and "getApiKey env = Inr k"
    and "runs_query env body = OkJson data"
    and "runs_of data \<noteq> [] \<or> pLimit_accepts (maxConcurrent_of (opt_maxConcurrent opts))"
  shows "fetchTraces env parse now order opts =
           (Request (PostRunsQuery body) #
              fst (bulk (maxConcurrent_of (opt_maxConcurrent opts)) (opt_onProgress opts)
                     (map (trace_task env parse (default_false (opt_includeMetadata opts))
                             (default_false (opt_includeFeedback opts))) (runs_of data)) order),
            snd (bulk (maxConcurrent_of (opt_maxConcurrent opts)) (opt_onProgress opts)
                     (map (trace_task env parse (default_false (opt_includeMetadata opts))
                             (default_false (opt_includeFeedback opts))) (runs_of data)) order))"
  using assms
  by (cases "runs_of data = []")
     (simp_all add: fetchTraces_def apiRequest_def Let_def bulk_no_tasks split: prod.splits)

lemma fetchThreads_unfold:
  assumes "threads_query_body parse now opts = Inr body"
    and "getApiKey env = Inr k"
    and "runs_query env body = OkJson data"
    and "ids = map fst (scan_threadIds (case topt_limit opts of None \<Rightarrow> Num 10 | Some l \<Rightarrow> l)
                          (runs_of data) [])"
    and "ids \<noteq> [] \<or> pLimit_accepts (maxConcurrent_of (topt_maxConcurrent opts))"
  shows "fetchThreads env parse decode now order opts =
           (Request (PostRunsQuery body) #
              fst (bulk (maxConcurrent_of (topt_maxConcurrent opts)) (topt_onProgress opts)
                     (map (thread_task env decode (topt_projectUuid opts)) ids) order),
            snd (bulk (maxConcurrent_of (topt_maxConcurrent opts)) (topt_onProgress opts)
                     (map (thread_task env decode (topt_projectUuid opts)) ids) order))"
  using assms
  by (cases "ids = []")
     (simp_all add: fetchThreads_def apiRequest_def Let_def bulk_no_tasks split: prod.splits)

lemma fetchTraces_result:
  assumes "traces_query_body parse now opts = Inr body"
    and "getApiKey env = Inr k"
    and "runs_query env body = OkJson data"
    and "pLimit_accepts (maxConcurrent_of (opt_maxConcurrent opts))"
    and "returns_normally (opt_onProgress opts) (length (runs_of data))"
    and "distinct order" and "set order = {..<length (runs_of data)}"
  shows "snd (fetchTraces env parse now order opts) =
           Some (Inr (successful (map (\<lambda>run. snd (fetchTrace env parse (run_id run)
                   (Some \<lparr> includeMetadata = Some (default_false (opt_includeMetadata opts)),
                           includeFeedback = Some (default_false (opt_includeFeedback opts)) \<rparr>)))
                 (runs_of data))))"
  using bulk_result [of "maxConcurrent_of (opt_maxConcurrent opts)" order
                       "map (trace_task env parse (default_false (opt_includeMetadata opts))
                             (default_false (opt_includeFeedback opts))) (runs_of data)"
                       "opt_onProgress opts"] assms(4,5,6,7)
  by (simp add: fetchTraces_unfold [OF assms(1,2,3)] trace_task_outcome comp_def)

lemma fetchThreads_result:
  assumes "threads_query_body parse now opts = Inr body"
    and "getApiKey env = Inr k"
    and "runs_query env body = OkJson data"
    and "ids = map fst (scan_threadIds (case topt_limit opts of None \<Rightarrow> Num 10 | Some l \<Rightarrow> l)
                          (runs_of data) [])"
    and "pLimit_accepts (maxConcurrent_of (topt_maxConcurrent opts))"
    and "returns_normally (topt_onProgress opts) (length ids)"
    and "distinct order" and "set order = {..<length ids}"
  shows "snd (fetchThreads env parse decode now order opts) =
           Some (Inr (successful (map (\<lambda>t. snd (fetchThread env decode t (topt_projectUuid opts)))
                 ids)))"
  using bulk_result [of "maxConcurrent_of (topt_maxConcurrent opts)" order
                       "map (thread_task env decode (topt_projectUuid opts)) ids"
                       "topt_onProgress opts"] assms(5,6,7,8)
  by (simp add: fetchThreads_unfold [OF assms(1,2,3,4)] thread_task_def comp_def)

lemma fetchTraces_progress:
  assumes "traces_query_body parse now opts = Inr body"
    and "getApiKey env = Inr k"
    and "runs_query env body = OkJson data"
    and "pLimit_accepts (maxConcurrent_of (opt_maxConcurrent opts))"
    and "returns_normally (opt_onProgress opts) (length (runs_of data))"
    and "distinct order" and "set order = {..<length (runs_of data)}"
  shows "progress_calls (fst (fetchTraces env parse now order opts)) =
           (if opt_onProgress opts = None then []
            else map (\<lambda>c. (c, length (runs_of data))) [1 ..< Suc (length (runs_of data))])"
  using bulk_progress [of "maxConcurrent_of (opt_maxConcurrent opts)" order
                       "map (trace_task env parse (default_false (opt_includeMetadata opts))
                             (default_false (opt_includeFeedback opts))) (runs_of data)"
                       "opt_onProgress opts"] assms(4,5,6,7)
  by (simp add: fetchTraces_unfold [OF assms(1,2,3)])

lemma fetchThreads_progress:
  assumes "threads_query_body parse now opts = Inr body"
    and "getApiKey env = Inr k"
    and "runs_query env body = OkJson data"
    and "ids = map fst (scan_threadIds (case topt_limit opts of None \<Rightarrow> Num 10 | Some l \<Rightarrow> l)
                          (runs_of data) [])"
    and "pLimit_accepts (maxConcurrent_of (topt_maxConcurrent opts))"
    and "returns_normally (topt_onProgress opts) (length ids)"
    and "distinct order" and "set order = {..<length ids}"
  shows "progress_calls (fst (fetchThreads env parse decode now order opts)) =
           (if topt_onProgress opts = None then []
            else map (\<lambda>c. (c, length ids)) [1 ..< Suc (length ids)])"
  using bulk_progress [of "maxConcurrent_of (topt_maxConcurrent opts)" order
                       "map (thread_task env decode (topt_projectUuid opts)) ids"
                       "topt_onProgress opts"] assms(5,6,7,8)
  by (simp add: fetchThreads_unfold [OF assms(1,2,3,4)])

subsection \<open>The example service\<close>

lemma example_key: "getApiKey example_remote = Inr ''key''"
  by (simp add: getApiKey_def example_remote_def)

lemma example_traces_query:
  "traces_query_body example_parse now example_traces_options = Inr example_traces_body"
  "traces_query_body example_parse now refused_options = Inr example_traces_body"
  "traces_query_body example_parse now throwing_options = Inr example_traces_body"
  by (simp_all add: traces_query_body_def start_time_filter_def example_traces_options_def
        refused_options_def throwing_options_def example_traces_body_def)

lemma example_threads_query:
  "threads_query_body example_parse now example_threads_options = Inr example_threads_body"
  by (simp add: threads_query_body_def start_time_filter_def example_threads_options_def
        example_threads_body_def)

lemma example_traces_answer:
  "runs_query example_remote example_traces_body
     = OkJson (Some [blank_run ''A'', blank_run ''B'', blank_run ''C''])"
  by (simp add: example_remote_def example_traces_body_def)

lemma example_threads_answer:
  "runs_query example_remote example_threads_body
     = OkJson (Some (map thread_run [''a'', ''a'', ''b'', ''a'', ''c'']))"
  by (simp add: example_remote_def example_threads_body_def)

lemma example_thread_ids:
  "select_threadIds example_threads_options (Some (map thread_run [''a'', ''a'', ''b'', ''a'', ''c'']))
     = [''a'', ''b'', ''c'']"
  by (simp add: select_threadIds_def example_threads_options_def runs_of_def thread_run_def
        threadId_of_def customMetadata_of_def blank_run_def)

lemma example_fetchTrace:
  "snd (fetchTrace example_remote example_parse rid
          (Some \<lparr> includeMetadata = Some False, includeFeedback = Some False \<rparr>))
     = (if rid = ''B'' then Inl (ApiError 404 ''Not found'') else Inr (example_trace rid))"
  by (simp add: fetchTrace_def apiRequest_def getApiKey_def example_remote_def wants_def
        messages_of_def stored_run_def blank_run_def example_trace_def)

lemma example_tasks:
  "map (trace_task example_remote example_parse False False)
     [blank_run ''A'', blank_run ''B'', blank_run ''C'']
   = [(''A'', Inr (example_trace ''A'')),
      (''B'', Inl (ApiError 404 ''Not found'')),
      (''C'', Inr (example_trace ''C''))]"
  by (simp add: prod_eq_iff trace_task_outcome example_fetchTrace)
     (simp add: trace_task_def blank_run_def)

lemma trim_braces: "trim (CHR ''{'' # t @ ''}'') = CHR ''{'' # t @ ''}''"
  by (simp add: trim_def is_space_def)

lemma example_fetchThread:
  "nl \<notin> set tid \<Longrightarrow>
   snd (fetchThread example_remote example_decode tid ''p'')
     = (if tid = ''b'' then Inl FetchRejected else Inr (example_thread tid))"
  by (simp add: fetchThread_def apiRequest_def getApiKey_def example_remote_def
        parse_messages_map_filter split_blank_no_nl trim_braces List.map_filter_def
        example_decode_def example_thread_def nl_def)

lemma example_flags:
  "default_false (opt_includeMetadata example_traces_options) = False"
  "default_false (opt_includeFeedback example_traces_options) = False"
  "default_false (opt_includeMetadata refused_options) = False"
  "default_false (opt_includeFeedback refused_options) = False"
  "default_false (opt_includeMetadata throwing_options) = False"
  "default_false (opt_includeFeedback throwing_options) = False"
  "topt_projectUuid example_threads_options = ''p''"
  by (simp_all add: default_false_def example_traces_options_def refused_options_def
        throwing_options_def example_threads_options_def)

lemma example_accepted:
  "pLimit_accepts (maxConcurrent_of (opt_maxConcurrent example_traces_options))"
  "pLimit_accepts (maxConcurrent_of (topt_maxConcurrent example_threads_options))"
  "pLimit_accepts (maxConcurrent_of (opt_maxConcurrent throwing_options))"
  "\<not> pLimit_accepts (maxConcurrent_of (opt_maxConcurrent refused_options))"
  by (simp_all add: maxConcurrent_of_def example_traces_options_def refused_options_def
        throwing_options_def example_threads_options_def)

lemma example_quiet:
  "returns_normally (opt_onProgress example_traces_options) n"
  "returns_normally (topt_onProgress example_threads_options) n"
  by (simp_all add: returns_normally_def throws_def quiet_callback_def
        example_traces_options_def example_threads_options_def)

lemma example_callbacks:
  "opt_onProgress example_traces_options \<noteq> None"
  "topt_onProgress example_threads_options \<noteq> None"
  "opt_onProgress refused_options \<noteq> None"
  "opt_onProgress throwing_options = Some throws_first"
  by (simp_all add: example_traces_options_def example_threads_options_def refused_options_def
        throwing_options_def)

lemma order_3: "distinct [Suc 0, 0, 2]" "set [Suc 0, 0, 2] = {..<length [x, y, z]}"
  by auto

text \<open>
  The batch of the example runs with the callback that throws at its first
  invocation, the tasks settling in the order 0, 1, 2: the task of run \<open>A\<close> ends in its
  \<open>catch\<close> block.
\<close>

lemma example_throwing_batch:
  "bulk (Num 2) (Some throws_first)
     [(''A'', Inr (example_trace ''A'')),
      (''B'', Inl (ApiError 404 ''Not found'')),
      (''C'', Inr (example_trace ''C''))] [0, Suc 0, 2]
   = ([Progress 1 3, ItemWarning ''A'' CallbackError, Progress 2 3,
       ItemWarning ''B'' (ApiError 404 ''Not found''), Progress 3 3, Progress 4 3],
      Some (Inr [example_trace ''C'']))"
  by (simp add: bulk_def run_batch_def settle_def catch_block_def notify_def throws_def
        throws_first_def Let_def numeral_2_eq_2 numeral_3_eq_3)

section \<open>Bulk fetch: the claims\<close>

text \<open>
  C1, as claimed: for every list of items and every mix of successes and failures the
  bulk fetch returns exactly the successful results. With a concurrency of 0 the
  call fails with a \<open>TypeError\<close> although the runs \<open>A\<close> and \<open>C\<close> can be fetched; and with
  a callback that throws at its first invocation the trace of run \<open>A\<close>, whose fetch
  succeeds, is not among the results.
\<close>

theorem bulk_fetch_results_counterexample:
  "snd (fetchTraces example_remote example_parse 0 [0, Suc 0, 2] refused_options)
     = Some (Inl TypeError)
   \<and> snd (fetchTrace example_remote example_parse ''A''
            (Some \<lparr> includeMetadata = Some False, includeFeedback = Some False \<rparr>))
     = Inr (example_trace ''A'')
   \<and> snd (fetchTraces example_remote example_parse 0 [0, Suc 0, 2] throwing_options)
     = Some (Inr [example_trace ''C''])"
proof (intro conjI)
  have data: "runs_of (Some [blank_run ''A'' :: string RawRun, blank_run ''B'', blank_run ''C'']) \<noteq> [] \<or>
              pLimit_accepts (maxConcurrent_of (opt_maxConcurrent opts))" for opts
    by (simp add: runs_of_def)
  show "snd (fetchTraces example_remote example_parse 0 [0, Suc 0, 2] refused_options)
          = Some (Inl TypeError)"
    unfolding fetchTraces_unfold [OF example_traces_query(2) example_key example_traces_answer data]
    by (simp add: bulk_refused example_accepted)
  show "snd (fetchTrace example_remote example_parse ''A''
            (Some \<lparr> includeMetadata = Some False, includeFeedback = Some False \<rparr>))
          = Inr (example_trace ''A'')"
    by (simp add: example_fetchTrace)
  show "snd (fetchTraces example_remote example_parse 0 [0, Suc 0, 2] throwing_options)
          = Some (Inr [example_trace ''C''])"
    unfolding fetchTraces_unfold [OF example_traces_query(3) example_key example_traces_answer data]
              example_flags runs_of_def option.case example_tasks example_callbacks
    by (simp add: maxConcurrent_of_def throwing_options_def example_traces_options_def
          example_throwing_batch)
qed

text \<open>
  C1, amended: when the query has answered, \<open>maxConcurrent\<close> is an integer of at least 1
  (or left to its default), the progress callback, if there is one, returns normally,
  and every task settles, in whatever order, a bulk fetch returns, and returns exactly
  the results of the successful single-item fetches, in the order of the item list
  (the runs of the query for \<open>fetchTraces\<close>, the deduplicated thread ids for
  \<open>fetchThreads\<close>), failed items omitted; the failure of an item is never the failure
  of the call.
\<close>

theorem bulk_fetch_results:
  "(traces_query_body parse now opts = Inr body \<and> getApiKey env = Inr k \<and>
    runs_query env body = OkJson data \<and>
    pLimit_accepts (maxConcurrent_of (opt_maxConcurrent opts)) \<and>
    returns_normally (opt_onProgress opts) (length (runs_of data)) \<and>
    distinct order \<and> set order = {..<length (runs_of data)} \<longrightarrow>
      snd (fetchTraces env parse now order opts) =
        Some (Inr (successful (map (\<lambda>run. snd (fetchTrace env parse (run_id run)
                (Some \<lparr> includeMetadata = Some (default_false (opt_includeMetadata opts)),
                        includeFeedback = Some (default_false (opt_includeFeedback opts)) \<rparr>)))
              (runs_of data)))))
   \<and> (threads_query_body parse now topts = Inr tbody \<and> getApiKey env = Inr k \<and>
      runs_query env tbody = OkJson tdata \<and>
      pLimit_accepts (maxConcurrent_of (topt_maxConcurrent topts)) \<and>
      returns_normally (topt_onProgress topts) (length (select_threadIds topts tdata)) \<and>
      distinct torder \<and> set torder = {..<length (select_threadIds topts tdata)} \<longrightarrow>
        snd (fetchThreads env parse decode now torder topts) =
          Some (Inr (successful (map (\<lambda>t. snd (fetchThread env decode t (topt_projectUuid topts)))
                (select_threadIds topts tdata)))))"
  using fetchTraces_result [of parse now opts body env k data order]
        fetchThreads_result [of parse now topts tbody env k tdata "select_threadIds topts tdata"
                               torder decode]
  by (simp add: select_threadIds_def)

theorem bulk_fetch_results_witness:
  "snd (fetchTraces example_remote example_parse 0 [Suc 0, 0, 2] example_traces_options)
     = Some (Inr [example_trace ''A'', example_trace ''C''])
   \<and> snd (fetchThreads example_remote example_parse example_decode 0 [Suc 0, 0, 2]
           example_threads_options)
     = Some (Inr [example_thread ''a'', example_thread ''c''])"
proof -
  have o1: "set [Suc 0, 0, 2] =
            {..<length (runs_of (Some [blank_run ''A'' :: string RawRun, blank_run ''B'', blank_run ''C'']))}"
    unfolding runs_of_def option.case by (rule order_3)
  have o2: "set [Suc 0, 0, 2] =
            {..<length (select_threadIds example_threads_options
                          (Some (map thread_run [''a'', ''a'', ''b'', ''a'', ''c''])))}"
    unfolding example_thread_ids by (rule order_3)
  have "snd (fetchTraces example_remote example_parse 0 [Suc 0, 0, 2] example_traces_options) =
        Some (Inr (successful (map (\<lambda>run. snd (fetchTrace example_remote example_parse (run_id run)
                (Some \<lparr> includeMetadata = Some (default_false (opt_includeMetadata example_traces_options)),
                        includeFeedback = Some (default_false (opt_includeFeedback example_traces_options)) \<rparr>)))
              (runs_of (Some [blank_run ''A'' :: string RawRun, blank_run ''B'', blank_run ''C''])))))
     \<and> snd (fetchThreads example_remote example_parse example_decode 0 [Suc 0, 0, 2]
             example_threads_options) =
          Some (Inr (successful (map (\<lambda>t. snd (fetchThread example_remote example_decode t
                                             (topt_projectUuid example_threads_options)))
                (select_threadIds example_threads_options
                   (Some (map thread_run [''a'', ''a'', ''b'', ''a'', ''c'']))))))"
  proof (intro conjI)
    note claim = bulk_fetch_results
      [of example_parse 0 example_traces_options example_traces_body example_remote "''key''"
          "Some [blank_run ''A'', blank_run ''B'', blank_run ''C'']" "[Suc 0, 0, 2]"
          example_threads_options example_threads_body
          "Some (map thread_run [''a'', ''a'', ''b'', ''a'', ''c''])"
          "[Suc 0, 0, 2]" example_decode]
    show "snd (fetchTraces example_remote example_parse 0 [Suc 0, 0, 2] example_traces_options) =
        Some (Inr (successful (map (\<lambda>run. snd (fetchTrace example_remote example_parse (run_id run)
                (Some \<lparr> includeMetadata = Some (default_false (opt_includeMetadata example_traces_options)),
                        includeFeedback = Some (default_false (opt_includeFeedback example_traces_options)) \<rparr>)))
              (runs_of (Some [blank_run ''A'' :: string RawRun, blank_run ''B'', blank_run ''C''])))))"
      by (rule claim [THEN conjunct1, THEN mp])
         (intro conjI example_traces_query(1) example_key example_traces_answer
            example_accepted(1) example_quiet(1) order_3(1) o1)
    show "snd (fetchThreads example_remote example_parse example_decode 0 [Suc 0, 0, 2]
             example_threads_options) =
          Some (Inr (successful (map (\<lambda>t. snd (fetchThread example_remote example_decode t
                                             (topt_projectUuid example_threads_options)))
                (select_threadIds example_threads_options
                   (Some (map thread_run [''a'', ''a'', ''b'', ''a'', ''c'']))))))"
      by (rule claim [THEN conjunct2, THEN mp])
         (intro conjI example_threads_query example_key example_threads_answer
            example_accepted(2) example_quiet(2) order_3(1) o2)
  qed
  then show ?thesis
    unfolding example_thread_ids runs_of_def example_flags
    by (simp add: example_fetchTrace example_fetchThread blank_run_def nl_def)
qed

text \<open>
  C2, as claimed: every bulk fetch of \<open>n\<close> items with a callback invokes it exactly \<open>n\<close>
  times, with the counts 1 to \<open>n\<close>. With three runs, a callback and a concurrency of 0
  the callback is never invoked; and a callback that throws at its first invocation is
  invoked four times, the last time with the count 4.
\<close>

theorem bulk_fetch_progress_counterexample:
  "progress_calls (fst (fetchTraces example_remote example_parse 0 [0, Suc 0, 2] refused_options))
     = []
   \<and> progress_calls (fst (fetchTraces example_remote example_parse 0 [0, Suc 0, 2]
                            throwing_options))
     = [(1, 3), (2, 3), (3, 3), (4, 3)]"
proof (intro conjI)
  have data: "runs_of (Some [blank_run ''A'' :: string RawRun, blank_run ''B'', blank_run ''C'']) \<noteq> [] \<or>
              pLimit_accepts (maxConcurrent_of (opt_maxConcurrent opts))" for opts
    by (simp add: runs_of_def)
  show "progress_calls (fst (fetchTraces example_remote example_parse 0 [0, Suc 0, 2]
                               refused_options)) = []"
    unfolding fetchTraces_unfold [OF example_traces_query(2) example_key example_traces_answer data]
    by (simp add: bulk_refused example_accepted)
  show "progress_calls (fst (fetchTraces example_remote example_parse 0 [0, Suc 0, 2]
                               throwing_options)) = [(1, 3), (2, 3), (3, 3), (4, 3)]"
    unfolding fetchTraces_unfold [OF example_traces_query(3) example_key example_traces_answer data]
              example_flags runs_of_def option.case example_tasks example_callbacks
    by (simp add: maxConcurrent_of_def throwing_options_def example_traces_options_def
          example_throwing_batch)
qed

text \<open>
  C2, amended: with a progress callback supplied that returns normally and a
  \<open>maxConcurrent\<close> that is an integer of at least 1 (or left to its default), when the
  query has answered with \<open>n\<close> items and every task settles, in whatever order and
  whether its fetch succeeds or fails, the callback is invoked \<open>n\<close> times, with
  completed counts 1, 2, ..., \<open>n\<close> in that order and always with total \<open>n\<close>.
\<close>

theorem bulk_fetch_progress:
  "(traces_query_body parse now opts = Inr body \<and> getApiKey env = Inr k \<and>
    runs_query env body = OkJson data \<and> opt_onProgress opts \<noteq> None \<and>
    pLimit_accepts (maxConcurrent_of (opt_maxConcurrent opts)) \<and>
    returns_normally (opt_onProgress opts) (length (runs_of data)) \<and>
    distinct order \<and> set order = {..<length (runs_of data)} \<longrightarrow>
      progress_calls (fst (fetchTraces env parse now order opts)) =
        map (\<lambda>c. (c, length (runs_of data))) [1 ..< Suc (length (runs_of data))])
   \<and> (threads_query_body parse now topts = Inr tbody \<and> getApiKey env = Inr k \<and>
      runs_query env tbody = OkJson tdata \<and> topt_onProgress topts \<noteq> None \<and>
      pLimit_accepts (maxConcurrent_of (topt_maxConcurrent topts)) \<and>
      returns_normally (topt_onProgress topts) (length (select_threadIds topts tdata)) \<and>
      distinct torder \<and> set torder = {..<length (select_threadIds topts tdata)} \<longrightarrow>
        progress_calls (fst (fetchThreads env parse decode now torder topts)) =
          map (\<lambda>c. (c, length (select_threadIds topts tdata)))
            [1 ..< Suc (length (select_threadIds topts tdata))])"
  using fetchTraces_progress [of parse now opts body env k data order]
        fetchThreads_progress [of parse now topts tbody env k tdata "select_threadIds topts tdata"
                                 torder decode]
  by (simp add: select_threadIds_def)

theorem bulk_fetch_progress_witness:
  "progress_calls (fst (fetchTraces example_remote example_parse 0 [Suc 0, 0, 2]
                          example_traces_options))
     = [(1, 3), (2, 3), (3, 3)]
   \<and> progress_calls (fst (fetchThreads example_remote example_parse example_decode 0
                            [Suc 0, 0, 2] example_threads_options))
     = [(1, 3), (2, 3), (3, 3)]"
proof -
  have o1: "set [Suc 0, 0, 2] =
            {..<length (runs_of (Some [blank_run ''A'' :: string RawRun, blank_run ''B'', blank_run ''C'']))}"
    unfolding runs_of_def option.case by (rule order_3)
  have o2: "set [Suc 0, 0, 2] =
            {..<length (select_threadIds example_threads_options
                          (Some (map thread_run [''a'', ''a'', ''b'', ''a'', ''c''])))}"
    unfolding example_thread_ids by (rule order_3)
  have "progress_calls (fst (fetchTraces example_remote example_parse 0 [Suc 0, 0, 2]
                               example_traces_options)) =
          map (\<lambda>c. (c, length (runs_of (Some [blank_run ''A'' :: string RawRun, blank_run ''B'', blank_run ''C'']))))
            [1 ..< Suc (length (runs_of (Some [blank_run ''A'' :: string RawRun, blank_run ''B'', blank_run ''C''])))]
     \<and> progress_calls (fst (fetchThreads example_remote example_parse example_decode 0
                              [Suc 0, 0, 2] example_threads_options)) =
          map (\<lambda>c. (c, length (select_threadIds example_threads_options
                                 (Some (map thread_run [''a'', ''a'', ''b'', ''a'', ''c''])))))
            [1 ..< Suc (length (select_threadIds example_threads_options
                                  (Some (map thread_run [''a'', ''a'', ''b'', ''a'', ''c'']))))]"
  proof (intro conjI)
    note claim = bulk_fetch_progress
      [of example_parse 0 example_traces_options example_traces_body example_remote "''key''"
          "Some [blank_run ''A'', blank_run ''B'', blank_run ''C'']" "[Suc 0, 0, 2]"
          example_threads_options example_threads_body
          "Some (map thread_run [''a'', ''a'', ''b'', ''a'', ''c''])"
          "[Suc 0, 0, 2]" example_decode]
    show "progress_calls (fst (fetchTraces example_remote example_parse 0 [Suc 0, 0, 2]
                               example_traces_options)) =
          map (\<lambda>c. (c, length (runs_of (Some [blank_run ''A'' :: string RawRun, blank_run ''B'', blank_run ''C'']))))
            [1 ..< Suc (length (runs_of (Some [blank_run ''A'' :: string RawRun, blank_run ''B'', blank_run ''C''])))]"
      by (rule claim [THEN conjunct1, THEN mp])
         (intro conjI example_traces_query(1) example_key example_traces_answer
            example_callbacks(1) example_accepted(1) example_quiet(1) order_3(1) o1)
    show "progress_calls (fst (fetchThreads example_remote example_parse example_decode 0
                              [Suc 0, 0, 2] example_threads_options)) =
          map (\<lambda>c. (c, length (select_threadIds example_threads_options
                                 (Some (map thread_run [''a'', ''a'', ''b'', ''a'', ''c''])))))
            [1 ..< Suc (length (select_threadIds example_threads_options
                                  (Some (map thread_run [''a'', ''a'', ''b'', ''a'', ''c'']))))]"
      by (rule claim [THEN conjunct2, THEN mp])
         (intro conjI example_threads_query example_key example_threads_answer
            example_callbacks(2) example_accepted(2) example_quiet(2) order_3(1) o2)
  qed
  then show ?thesis
    unfolding example_thread_ids runs_of_def
    by (simp add: numeral_2_eq_2 numeral_3_eq_3)
qed

section \<open>The cap of the thread-id scan\<close>








section \<open>Time filter\<close>

text \<open>
  C4, as claimed: a call of \<open>fetchTraces\<close> with both a relative window and an absolute
  timestamp fails as a usage error before any request. The call issues the query,
  with the start time taken from the window (30 minutes before now), and returns the
  traces.
\<close>

theorem fetchTraces_both_filters_counterexample:
  "fetchTraces example_remote example_parse 1735689600000 [0, Suc 0, 2] both_filters_options
     = ([Request (PostRunsQuery (example_traces_body\<lparr> body_start_time := Some 1735687800000 \<rparr>)),
         ItemWarning ''B'' (ApiError 404 ''Not found'')],
        Some (Inr [example_trace ''A'', example_trace ''C'']))"
proof -
  have q: "traces_query_body example_parse 1735689600000 both_filters_options
             = Inr (example_traces_body\<lparr> body_start_time := Some 1735687800000 \<rparr>)"
    by (simp add: traces_query_body_def start_time_filter_def both_filters_options_def
          example_traces_options_def example_traces_body_def)
  have a: "runs_query example_remote (example_traces_body\<lparr> body_start_time := Some 1735687800000 \<rparr>)
             = OkJson (Some [blank_run ''A'', blank_run ''B'', blank_run ''C''])"
    by (simp add: example_remote_def example_traces_body_def)
  have flags: "default_false (opt_includeMetadata both_filters_options) = False"
              "default_false (opt_includeFeedback both_filters_options) = False"
              "opt_onProgress both_filters_options = None"
              "maxConcurrent_of (opt_maxConcurrent both_filters_options) = Num 2"
    by (simp_all add: default_false_def maxConcurrent_of_def both_filters_options_def
          example_traces_options_def)
  have data: "runs_of (Some [blank_run ''A'' :: string RawRun, blank_run ''B'', blank_run ''C'']) \<noteq> [] \<or>
              pLimit_accepts (maxConcurrent_of (opt_maxConcurrent both_filters_options))"
    by (simp add: runs_of_def)
  show ?thesis
    unfolding fetchTraces_unfold [OF q example_key a data] flags runs_of_def option.case
              example_tasks
    by (simp add: bulk_def run_batch_def settle_def catch_block_def notify_def throws_def
          Let_def numeral_2_eq_2)
qed

lemma start_time_filter_window:
  "\<bar>now - n * 60 * 1000\<bar> \<le> 8640000000000000 \<Longrightarrow>
   start_time_filter parse now (Some (Num n)) since = Inr (Some (now - n * 60 * 1000))"
  by (simp add: start_time_filter_def)

lemma start_time_filter_since:
  "s \<noteq> [] \<Longrightarrow> parse (replace_Z s) = Some t \<Longrightarrow>
   start_time_filter parse now None (Some s) = Inr (Some t)"
  by (simp add: start_time_filter_def)

lemma start_time_filter_none:
  "\<not> truthy since \<Longrightarrow> start_time_filter parse now None since = Inr None"
  by (simp add: start_time_filter_def)

lemma traces_query_body_start_time:
  "traces_query_body parse now opts = Inr body \<Longrightarrow>
   start_time_filter parse now (opt_lastNMinutes opts) (opt_since opts) = Inr (body_start_time body)"
  by (auto simp add: traces_query_body_def split: sum.splits)

lemma threads_query_body_start_time:
  "threads_query_body parse now topts = Inr tbody \<Longrightarrow>
   start_time_filter parse now (topt_lastNMinutes topts) (topt_since topts) = Inr (body_start_time tbody)"
  by (auto simp add: threads_query_body_def split: sum.splits)

lemma time_window_guard_both:
  "truthy optLastNMinutes \<Longrightarrow> truthy optSince \<Longrightarrow>
   time_window_guard parseInt optLastNMinutes optSince rest =
     Inl (Exit 1 ''Error: --last-n-minutes and --since are mutually exclusive'')"
  by (cases optLastNMinutes) (simp_all add: time_window_guard_def)

text \<open>
  C4, amended: the \<open>traces\<close> and \<open>threads\<close> commands, given both options, exit with
  status 1 and an error before anything else of the action runs. The bulk fetchers
  build the \<open>start_time\<close> of their query body by the time filter, in which the relative
  window comes first: a window of \<open>n\<close> minutes gives the instant \<open>n\<close> minutes before
  now (when that is a valid date), whatever \<open>since\<close> is; without a window a non-empty
  \<open>since\<close> gives the instant it parses to, after its first \<open>Z\<close> is replaced by
  \<open>+00:00\<close>; with neither there is no \<open>start_time\<close>.
\<close>

theorem time_filter_precedence:
  "(truthy optLastNMinutes \<and> truthy optSince \<longrightarrow>
      time_window_guard parseInt optLastNMinutes optSince rest =
        Inl (Exit 1 ''Error: --last-n-minutes and --since are mutually exclusive''))
   \<and> (traces_query_body parse now opts = Inr body \<longrightarrow>
        start_time_filter parse now (opt_lastNMinutes opts) (opt_since opts) =
          Inr (body_start_time body))
   \<and> (threads_query_body parse now topts = Inr tbody \<longrightarrow>
        start_time_filter parse now (topt_lastNMinutes topts) (topt_since topts) =
          Inr (body_start_time tbody))
   \<and> (\<bar>now - n * 60 * 1000\<bar> \<le> 8640000000000000 \<longrightarrow>
        start_time_filter parse now (Some (Num n)) since = Inr (Some (now - n * 60 * 1000)))
   \<and> (s \<noteq> [] \<and> parse (replace_Z s) = Some t \<longrightarrow>
        start_time_filter parse now None (Some s) = Inr (Some t))
   \<and> (\<not> truthy since0 \<longrightarrow> start_time_filter parse now None since0 = Inr None)"
  using time_window_guard_both [of optLastNMinutes optSince parseInt rest]
        traces_query_body_start_time [of parse now opts body]
        threads_query_body_start_time [of parse now topts tbody]
        start_time_filter_window [of now n parse since]
        start_time_filter_since [of s parse t now]
        start_time_filter_none [of since0 parse now]
  by blast

theorem time_filter_precedence_witness:
  "time_window_guard example_parseInt (Some ''30'') (Some ''2025-01-01T00:00:00Z'')
       (\<lambda>lastNMinutes. fetchTraces example_remote example_parse 1735689600000 [0, Suc 0, 2]
           (both_filters_options\<lparr> opt_lastNMinutes := lastNMinutes \<rparr>))
     = Inl (Exit 1 ''Error: --last-n-minutes and --since are mutually exclusive'')
   \<and> start_time_filter example_parse 1735689600000 (opt_lastNMinutes both_filters_options)
         (opt_since both_filters_options) = Inr (Some 1735687800000)
   \<and> start_time_filter example_parse 1735689600000 (topt_lastNMinutes example_threads_options)
         (topt_since example_threads_options) = Inr None
   \<and> start_time_filter example_parse 1735689600000 (Some (Num 30)) (Some ''2025-01-01T00:00:00Z'')
       = Inr (Some 1735687800000)
   \<and> start_time_filter example_parse 1735689600000 None (Some ''2025-01-01T00:00:00Z'')
       = Inr (Some 1735689600000)
   \<and> start_time_filter example_parse 1735689600000 None None = Inr None"
proof -
  have q: "traces_query_body example_parse 1735689600000 both_filters_options
             = Inr (example_traces_body\<lparr> body_start_time := Some 1735687800000 \<rparr>)"
    by (simp add: traces_query_body_def start_time_filter_def both_filters_options_def
          example_traces_options_def example_traces_body_def)
  have z: "replace_Z ''2025-01-01T00:00:00Z'' = ''2025-01-01T00:00:00+00:00''"
    by simp
  have p: "example_parse (replace_Z ''2025-01-01T00:00:00Z'') = Some 1735689600000"
    unfolding z by (simp add: example_parse_def)
  show ?thesis
    using time_filter_precedence
      [of "Some ''30''" "Some ''2025-01-01T00:00:00Z''" example_parseInt
          "\<lambda>lastNMinutes. fetchTraces example_remote example_parse 1735689600000 [0, Suc 0, 2]
             (both_filters_options\<lparr> opt_lastNMinutes := lastNMinutes \<rparr>)"
          example_parse 1735689600000 both_filters_options
          "example_traces_body\<lparr> body_start_time := Some 1735687800000 \<rparr>"
          example_threads_options example_threads_body 30 "Some ''2025-01-01T00:00:00Z''"
          "''2025-01-01T00:00:00Z''" 1735689600000 None]
      q example_threads_query [of 1735689600000] p
    by (simp add: example_threads_body_def)
qed

end
